theory Spec2Isabelle
  imports Complex_Main
begin

section \<open>Arrays\<close>

text \<open>
  A NumPy array is a nested datatype: a scalar, or a sequence of sub-arrays along the
  first axis. Entries are real numbers, and the operations of this section and of the
  ensemble below compute on them exactly. Where rounding decides a property (the default
  weights, C7), the same code is read in float64 arithmetic, in the section on float64
  below.
\<close>

datatype ndarray = Scalar real | Array "ndarray list"

text \<open>
  The shape of an array, \<open>None\<close> when the nesting is ragged (such a value is not an
  array of NumPy's). An empty sequence has shape \<open>(0,)\<close>.
\<close>

fun shape :: "ndarray \<Rightarrow> nat list option" where
  "shape (Scalar v) = Some []"
| "shape (Array []) = Some [0]"
| "shape (Array (a # as)) =
     (case shape a of
        None \<Rightarrow> None
      | Some s \<Rightarrow> if list_all (\<lambda>b. shape b = Some s) as
                 then Some (Suc (length as) # s) else None)"

text \<open>\<open>w * a\<close> for a scalar \<open>w\<close>: every entry is multiplied by \<open>w\<close>.\<close>

fun scale_nd :: "real \<Rightarrow> ndarray \<Rightarrow> ndarray" where
  "scale_nd w (Scalar v) = Scalar (w * v)"
| "scale_nd w (Array as) = Array (map (scale_nd w) as)"

text \<open>A function applied to every entry (\<open>np.log\<close>, \<open>np.clip\<close>).\<close>

fun map_nd :: "(real \<Rightarrow> real) \<Rightarrow> ndarray \<Rightarrow> ndarray" where
  "map_nd f (Scalar v) = Scalar (f v)"
| "map_nd f (Array as) = Array (map (map_nd f) as)"

text \<open>
  The entrywise sum of two arrays of one shape. \<open>np.sum\<close> along the first axis adds
  the sub-arrays of a stacked array, which all have one shape. Arguments of different
  nesting never meet there (\<open>np_array\<close> below refuses them); for them the function
  keeps the common prefix, or its first argument.
\<close>

fun add_nd :: "ndarray \<Rightarrow> ndarray \<Rightarrow> ndarray"
  and add_list :: "ndarray list \<Rightarrow> ndarray list \<Rightarrow> ndarray list" where
  "add_nd (Scalar u) (Scalar v) = Scalar (u + v)"
| "add_nd (Array as) (Array bs) = Array (add_list as bs)"
| "add_nd (Scalar u) (Array bs) = Scalar u"
| "add_nd (Array as) (Scalar v) = Array as"
| "add_list (a # as) (b # bs) = add_nd a b # add_list as bs"
| "add_list [] bs = []"
| "add_list as [] = []"

text \<open>
  \<open>np.sum(a, axis=0)\<close>: the sub-arrays along the first axis, added up. The sum of an
  empty array is \<open>0\<close>.
\<close>

fun np_sum_axis0 :: "ndarray \<Rightarrow> ndarray" where
  "np_sum_axis0 (Scalar v) = Scalar v"
| "np_sum_axis0 (Array []) = Scalar 0"
| "np_sum_axis0 (Array (a # as)) = foldl add_nd a as"

text \<open>\<open>np.clip(a, lo, hi)\<close> and \<open>np.log(a)\<close>, entry by entry.\<close>

definition np_clip :: "ndarray \<Rightarrow> real \<Rightarrow> real \<Rightarrow> ndarray" where
  "np_clip a lo hi = map_nd (\<lambda>v. min (max v lo) hi) a"

definition np_log :: "ndarray \<Rightarrow> ndarray" where
  "np_log a = map_nd ln a"

section \<open>Errors and values\<close>

datatype error = ValueError | TypeError | IndexError | AttributeError | NotImplementedError

text \<open>A Python value, as far as \<open>isinstance(train, bool)\<close> and \<open>is not None\<close> tell them apart.\<close>

datatype py_value = PyNone | PyBool bool | PyInt int | PyFloat real | PyStr string

text \<open>
  \<open>np.array([a, b, ...])\<close> stacks arrays of one shape along a new first axis; a ragged
  list is refused with \<open>ValueError\<close>.
\<close>

definition np_array :: "ndarray list \<Rightarrow> error + ndarray" where
  "np_array as = (if shape (Array as) = None then Inl ValueError else Inr (Array as))"

section \<open>Member classifiers\<close>

text \<open>
  A member is an instance of some subclass of \<open>Classifier\<close>; the subclasses are not part
  of \<open>ensemble.py\<close>. The record holds what the ensemble reads and calls: the three
  properties, the three query methods and \<open>set_learning_phase\<close>. The member's own
  state has the type \<open>'s\<close>; the methods are functions of it, and
  \<open>set_learning_phase\<close> returns the new state. The query methods return an array and
  change nothing.
\<close>

record 's classifier =
  clip_values :: "real \<times> real"
  nb_classes :: nat
  input_shape :: "nat list"
  member_predict :: "'s \<Rightarrow> ndarray \<Rightarrow> bool \<Rightarrow> ndarray"
  member_class_gradient :: "'s \<Rightarrow> ndarray \<Rightarrow> int option \<Rightarrow> bool \<Rightarrow> ndarray"
  member_loss_gradient :: "'s \<Rightarrow> ndarray \<Rightarrow> ndarray \<Rightarrow> ndarray"
  member_set_learning_phase :: "'s \<Rightarrow> bool \<Rightarrow> 's"
  member_state :: 's

text \<open>The method calls \<open>c.predict(x, logits)\<close>, \<open>c.class_gradient(x, label, logits)\<close>,
  \<open>c.loss_gradient(x, y)\<close> and \<open>c.set_learning_phase(train)\<close>.\<close>

definition call_predict :: "'s classifier \<Rightarrow> ndarray \<Rightarrow> bool \<Rightarrow> ndarray" where
  "call_predict c x logits = member_predict c (member_state c) x logits"

definition call_class_gradient ::
  "'s classifier \<Rightarrow> ndarray \<Rightarrow> int option \<Rightarrow> bool \<Rightarrow> ndarray" where
  "call_class_gradient c x label logits = member_class_gradient c (member_state c) x label logits"

definition call_loss_gradient :: "'s classifier \<Rightarrow> ndarray \<Rightarrow> ndarray \<Rightarrow> ndarray" where
  "call_loss_gradient c x y = member_loss_gradient c (member_state c) x y"

definition call_set_learning_phase :: "'s classifier \<Rightarrow> bool \<Rightarrow> 's classifier" where
  "call_set_learning_phase c train =
     c\<lparr>member_state := member_set_learning_phase c (member_state c) train\<rparr>"

text \<open>An element of the list given to the constructor: a \<open>Classifier\<close> instance, or any
  other object.\<close>

datatype 's py_object = Instance "'s classifier" | Foreign

section \<open>The ensemble\<close>

record 's ensemble =
  self_nb_classifiers :: nat
  self_input_shape :: "nat list"
  self_nb_classes :: nat
  self_clip_values :: "real \<times> real"
  self_classifier_weights :: "real list"
  self_classifiers :: "'s classifier list"
  self_learning :: "py_value option"
  self_learning_phase :: "py_value option"

subsection \<open>Construction\<close>

text \<open>
  The loop of \<open>__init__\<close> over \<open>classifiers\<close>: the second argument is the whole list
  (for \<open>classifiers[0]\<close>), the third what is left to visit. The checks of one element
  run in the source's order. When every element has passed, the elements are returned
  as the instances they are.
\<close>

fun check_classifiers ::
  "real \<times> real \<Rightarrow> 's py_object list \<Rightarrow> 's py_object list \<Rightarrow> error + 's classifier list" where
  "check_classifiers cv cls [] = Inr []"
| "check_classifiers cv cls (Foreign # rest) = Inl TypeError"
| "check_classifiers cv cls (Instance c # rest) =
     (if cv \<noteq> clip_values c then Inl ValueError
      else case cls of
        [] \<Rightarrow> Inl IndexError
      | Foreign # _ \<Rightarrow> Inl AttributeError
      | Instance c0 # _ \<Rightarrow>
          if nb_classes c \<noteq> nb_classes c0 then Inl ValueError
          else if input_shape c \<noteq> input_shape c0 then Inl ValueError
          else (case check_classifiers cv cls rest of
                  Inl e \<Rightarrow> Inl e
                | Inr cs \<Rightarrow> Inr (c # cs)))"

text \<open>
  \<open>__init__(clip_values, classifiers, classifier_weights)\<close>. \<open>classifiers\<close> and
  \<open>classifier_weights\<close> may be \<open>None\<close>. \<open>channel_index\<close>, \<open>defences\<close> and
  \<open>preprocessing\<close> go to the initialiser of the base class and are not read again in
  \<open>ensemble.py\<close>. \<open>__init__\<close> assigns \<open>_nb_classifiers\<close>, \<open>_input_shape\<close>,
  \<open>_nb_classes\<close>, \<open>_clip_values\<close>, \<open>_classifier_weights\<close> and \<open>_classifiers\<close>. It
  assigns neither \<open>_learning\<close> nor \<open>_learning_phase\<close>: the new object has no attribute
  of these names, which is the value \<open>None\<close> of the two fields (\<open>Some v\<close> is an attribute
  that holds \<open>v\<close>). \<open>np.ones(n) / n\<close> is \<open>n\<close> times \<open>1 / n\<close>.
\<close>

definition init ::
  "real \<times> real \<Rightarrow> 's py_object list option \<Rightarrow> real list option \<Rightarrow> error + 's ensemble" where
  "init cv classifiers classifier_weights =
     (case classifiers of
        None \<Rightarrow> Inl ValueError
      | Some cls \<Rightarrow>
          if cls = [] then Inl ValueError
          else (case check_classifiers cv cls cls of
                  Inl e \<Rightarrow> Inl e
                | Inr cs \<Rightarrow>
                    Inr \<lparr>self_nb_classifiers = length cls,
                         self_input_shape = input_shape (hd cs),
                         self_nb_classes = nb_classes (hd cs),
                         self_clip_values = cv,
                         self_classifier_weights =
                           (case classifier_weights of
                              None \<Rightarrow> replicate (length cls) (1 / real (length cls))
                            | Some ws \<Rightarrow> ws),
                         self_classifiers = cs,
                         self_learning = None,
                         self_learning_phase = None\<rparr>))"

subsection \<open>Queries\<close>

text \<open>
  The list comprehension shared by the three queries,
  \<open>[self._classifier_weights[i] * self._classifiers[i].m(...) for i in range(n)]\<close>,
  with the member call \<open>m\<close> as a parameter. An index past the end of either list raises
  \<open>IndexError\<close>.
\<close>

fun weighted_outputs ::
  "real list \<Rightarrow> 'c list \<Rightarrow> ('c \<Rightarrow> ndarray) \<Rightarrow> nat list \<Rightarrow> error + ndarray list" where
  "weighted_outputs ws cs m [] = Inr []"
| "weighted_outputs ws cs m (i # is) =
     (if length ws \<le> i then Inl IndexError
      else if length cs \<le> i then Inl IndexError
      else (case weighted_outputs ws cs m is of
              Inl e \<Rightarrow> Inl e
            | Inr outs \<Rightarrow> Inr (scale_nd (ws ! i) (m (cs ! i)) # outs)))"

definition predict :: "'s ensemble \<Rightarrow> ndarray \<Rightarrow> bool \<Rightarrow> bool \<Rightarrow> error + ndarray" where
  "predict self x logits raw =
     (case weighted_outputs (self_classifier_weights self) (self_classifiers self)
             (\<lambda>c. call_predict c x (raw \<and> logits)) [0..<self_nb_classifiers self] of
        Inl e \<Rightarrow> Inl e
      | Inr outs \<Rightarrow>
          (case np_array outs of
             Inl e \<Rightarrow> Inl e
           | Inr preds \<Rightarrow>
               if raw then Inr preds
               else let z = np_sum_axis0 preds in
                 if logits then (let eps = 10 / 10 ^ 8 in Inr (np_log (np_clip z eps (1 - eps))))
                 else Inr z))"

definition class_gradient ::
  "'s ensemble \<Rightarrow> ndarray \<Rightarrow> int option \<Rightarrow> bool \<Rightarrow> bool \<Rightarrow> error + ndarray" where
  "class_gradient self x label logits raw =
     (case weighted_outputs (self_classifier_weights self) (self_classifiers self)
             (\<lambda>c. call_class_gradient c x label logits) [0..<self_nb_classifiers self] of
        Inl e \<Rightarrow> Inl e
      | Inr outs \<Rightarrow>
          (case np_array outs of
             Inl e \<Rightarrow> Inl e
           | Inr grads \<Rightarrow> if raw then Inr grads else Inr (np_sum_axis0 grads)))"

definition loss_gradient :: "'s ensemble \<Rightarrow> ndarray \<Rightarrow> ndarray \<Rightarrow> bool \<Rightarrow> error + ndarray" where
  "loss_gradient self x y raw =
     (case weighted_outputs (self_classifier_weights self) (self_classifiers self)
             (\<lambda>c. call_loss_gradient c x y) [0..<self_nb_classifiers self] of
        Inl e \<Rightarrow> Inl e
      | Inr outs \<Rightarrow>
          (case np_array outs of
             Inl e \<Rightarrow> Inl e
           | Inr grads \<Rightarrow> if raw then Inr grads else Inr (np_sum_axis0 grads)))"

subsection \<open>The learning phase\<close>

text \<open>
  \<open>set_learning_phase(train)\<close>. The guard reads \<open>self._learning\<close> first: on an object
  that has no attribute of this name the read raises \<open>AttributeError\<close>, whatever
  \<open>train\<close> is. On an object that has it: when it is not \<open>None\<close> and \<open>train\<close> is a
  \<open>bool\<close>, every member's \<open>set_learning_phase\<close> is called, in list order, and \<open>train\<close>
  is stored in \<open>_learning_phase\<close>; otherwise nothing happens.
\<close>

definition set_learning_phase :: "'s ensemble \<Rightarrow> py_value \<Rightarrow> error + 's ensemble" where
  "set_learning_phase self train =
     (case self_learning self of
        None \<Rightarrow> Inl AttributeError
      | Some learning \<Rightarrow>
          if learning \<noteq> PyNone
          then (case train of
                  PyBool b \<Rightarrow>
                    Inr (self\<lparr>self_classifiers :=
                                 map (\<lambda>c. call_set_learning_phase c b) (self_classifiers self),
                               self_learning_phase := Some train\<rparr>)
                | _ \<Rightarrow> Inr self)
          else Inr self)"

subsection \<open>Operations an ensemble does not support\<close>

definition fit :: "'s ensemble \<Rightarrow> ndarray \<Rightarrow> ndarray \<Rightarrow> int \<Rightarrow> int \<Rightarrow> error + unit" where
  "fit self x y batch_size nb_epochs = Inl NotImplementedError"

definition fit_generator :: "'s ensemble \<Rightarrow> 'g \<Rightarrow> int \<Rightarrow> error + unit" where
  "fit_generator self generator nb_epochs = Inl NotImplementedError"

definition layer_names :: "'s ensemble \<Rightarrow> error + string list" where
  "layer_names self = Inl NotImplementedError"

definition get_activations :: "'s ensemble \<Rightarrow> ndarray \<Rightarrow> int + string \<Rightarrow> error + ndarray" where
  "get_activations self x layer = Inl NotImplementedError"

definition save :: "'s ensemble \<Rightarrow> string \<Rightarrow> string option \<Rightarrow> error + unit" where
  "save self filename path = Inl NotImplementedError"

section \<open>The same code in float64 arithmetic\<close>

text \<open>
  NumPy computes in float64: 53 significant bits, exponents from \<open>-1022\<close>. \<open>fl64 x\<close> is
  the float64 nearest to \<open>x\<close>, a tie going to the one whose last bit is even (below
  \<open>2^-1022\<close> the spacing stays \<open>2^-1074\<close>). A result of magnitude \<open>2^1024\<close> or more is
  an infinity in float64; the model has none, and \<open>fl64\<close> is used below that bound. The
  arrays that the members return hold float64 numbers, and every product, sum and
  quotient of two of them is the exact result rounded by \<open>fl64\<close>.
\<close>

definition round_half_even :: "real \<Rightarrow> int" where
  "round_half_even y =
     (let n = \<lfloor>y\<rfloor>; r = y - of_int n
      in if r < 1 / 2 then n else if 1 / 2 < r then n + 1 else if even n then n else n + 1)"

definition fl64 :: "real \<Rightarrow> real" where
  "fl64 x =
     (if x = 0 then 0
      else let e = max \<lfloor>log 2 \<bar>x\<bar>\<rfloor> (- 1022);
               ulp = 2 powr (of_int e - 52)
           in of_int (round_half_even (x / ulp)) * ulp)"

text \<open>\<open>w * a\<close>, the entrywise sum of two arrays, and \<open>np.sum(a, axis=0)\<close>, which adds the
  sub-arrays in their order, starting from the first.\<close>

fun scale_f64 :: "real \<Rightarrow> ndarray \<Rightarrow> ndarray" where
  "scale_f64 w (Scalar v) = Scalar (fl64 (w * v))"
| "scale_f64 w (Array as) = Array (map (scale_f64 w) as)"

fun add_f64 :: "ndarray \<Rightarrow> ndarray \<Rightarrow> ndarray"
  and add_list_f64 :: "ndarray list \<Rightarrow> ndarray list \<Rightarrow> ndarray list" where
  "add_f64 (Scalar u) (Scalar v) = Scalar (fl64 (u + v))"
| "add_f64 (Array as) (Array bs) = Array (add_list_f64 as bs)"
| "add_f64 (Scalar u) (Array bs) = Scalar u"
| "add_f64 (Array as) (Scalar v) = Array as"
| "add_list_f64 (a # as) (b # bs) = add_f64 a b # add_list_f64 as bs"
| "add_list_f64 [] bs = []"
| "add_list_f64 as [] = []"

fun np_sum_axis0_f64 :: "ndarray \<Rightarrow> ndarray" where
  "np_sum_axis0_f64 (Scalar v) = Scalar v"
| "np_sum_axis0_f64 (Array []) = Scalar 0"
| "np_sum_axis0_f64 (Array (a # as)) = foldl add_f64 a as"

text \<open>
  \<open>__init__\<close> as above; \<open>np.ones(n) / n\<close> is \<open>n\<close> times the float64 quotient of \<open>1\<close> and
  \<open>n\<close>.
\<close>

definition init_f64 ::
  "real \<times> real \<Rightarrow> 's py_object list option \<Rightarrow> real list option \<Rightarrow> error + 's ensemble" where
  "init_f64 cv classifiers classifier_weights =
     (case classifiers of
        None \<Rightarrow> Inl ValueError
      | Some cls \<Rightarrow>
          if cls = [] then Inl ValueError
          else (case check_classifiers cv cls cls of
                  Inl e \<Rightarrow> Inl e
                | Inr cs \<Rightarrow>
                    Inr \<lparr>self_nb_classifiers = length cls,
                         self_input_shape = input_shape (hd cs),
                         self_nb_classes = nb_classes (hd cs),
                         self_clip_values = cv,
                         self_classifier_weights =
                           (case classifier_weights of
                              None \<Rightarrow> replicate (length cls) (fl64 (1 / real (length cls)))
                            | Some ws \<Rightarrow> ws),
                         self_classifiers = cs,
                         self_learning = None,
                         self_learning_phase = None\<rparr>))"

text \<open>
  \<open>predict\<close> as above. The literal \<open>10e-8\<close> is the float64 nearest to \<open>10 / 10^8\<close>, and
  \<open>1. - eps\<close> is rounded; \<open>np.clip\<close> selects and does not round. What \<open>np.log\<close> returns
  for a float64 is the platform's and is the parameter \<open>flog\<close>.
\<close>

fun weighted_outputs_f64 ::
  "real list \<Rightarrow> 'c list \<Rightarrow> ('c \<Rightarrow> ndarray) \<Rightarrow> nat list \<Rightarrow> error + ndarray list" where
  "weighted_outputs_f64 ws cs m [] = Inr []"
| "weighted_outputs_f64 ws cs m (i # is) =
     (if length ws \<le> i then Inl IndexError
      else if length cs \<le> i then Inl IndexError
      else (case weighted_outputs_f64 ws cs m is of
              Inl e \<Rightarrow> Inl e
            | Inr outs \<Rightarrow> Inr (scale_f64 (ws ! i) (m (cs ! i)) # outs)))"

definition predict_f64 ::
  "(real \<Rightarrow> real) \<Rightarrow> 's ensemble \<Rightarrow> ndarray \<Rightarrow> bool \<Rightarrow> bool \<Rightarrow> error + ndarray" where
  "predict_f64 flog self x logits raw =
     (case weighted_outputs_f64 (self_classifier_weights self) (self_classifiers self)
             (\<lambda>c. call_predict c x (raw \<and> logits)) [0..<self_nb_classifiers self] of
        Inl e \<Rightarrow> Inl e
      | Inr outs \<Rightarrow>
          (case np_array outs of
             Inl e \<Rightarrow> Inl e
           | Inr preds \<Rightarrow>
               if raw then Inr preds
               else let z = np_sum_axis0_f64 preds in
                 if logits
                 then (let eps = fl64 (10 / 10 ^ 8)
                       in Inr (map_nd flog (np_clip z eps (fl64 (1 - eps)))))
                 else Inr z))"

section \<open>What a member returns\<close>

text \<open>
  The docstrings give the shapes of what a classifier returns: \<open>predict\<close> an array of
  shape \<open>(nb_inputs, nb_classes)\<close>, \<open>class_gradient\<close> one of shape
  \<open>(batch_size, nb_classes, input_shape)\<close>, or \<open>(batch_size, 1, input_shape)\<close> when a
  label is given, and \<open>loss_gradient\<close> one of the shape of \<open>x\<close>. \<open>nb_inputs x\<close> is
  \<open>x.shape[0]\<close>.
\<close>

definition nb_inputs :: "ndarray \<Rightarrow> nat" where
  "nb_inputs x = (case x of Scalar v \<Rightarrow> 0 | Array as \<Rightarrow> length as)"

definition predict_conforms :: "ndarray \<Rightarrow> bool \<Rightarrow> 's classifier \<Rightarrow> bool" where
  "predict_conforms x logits c \<longleftrightarrow>
     shape (call_predict c x logits) = Some [nb_inputs x, nb_classes c]"

definition class_gradient_conforms ::
  "ndarray \<Rightarrow> int option \<Rightarrow> bool \<Rightarrow> 's classifier \<Rightarrow> bool" where
  "class_gradient_conforms x label logits c \<longleftrightarrow>
     shape (call_class_gradient c x label logits) =
       Some (nb_inputs x # (case label of None \<Rightarrow> nb_classes c | Some l \<Rightarrow> 1) # input_shape c)"

definition loss_gradient_conforms :: "ndarray \<Rightarrow> ndarray \<Rightarrow> 's classifier \<Rightarrow> bool" where
  "loss_gradient_conforms x y c \<longleftrightarrow>
     shape x \<noteq> None \<and> shape (call_loss_gradient c x y) = shape x"

section \<open>Two members and a batch, for the concrete checks\<close>

text \<open>
  A member for two classes and inputs of one feature, whose state is its learning-phase
  flag. For every query it returns the same row: the probabilities \<open>(p, 1 - p)\<close>, the
  logits \<open>(0, l)\<close>, and gradients made of \<open>p\<close>. The two members below have logits
  whose softmax is their probabilities.
\<close>

definition example_member :: "real \<Rightarrow> real \<Rightarrow> bool classifier" where
  "example_member p l =
     \<lparr>clip_values = (0, 1),
      nb_classes = 2,
      input_shape = [1],
      member_predict =
        (\<lambda>s x logits. if logits then Array [Array [Scalar 0, Scalar l]]
                       else Array [Array [Scalar p, Scalar (1 - p)]]),
      member_class_gradient =
        (\<lambda>s x label logits. case label of
            None \<Rightarrow> Array [Array [Array [Scalar p], Array [Scalar (- p)]]]
          | Some k \<Rightarrow> Array [Array [Array [Scalar p]]]),
      member_loss_gradient = (\<lambda>s x y. Array [Array [Scalar p]]),
      member_set_learning_phase = (\<lambda>s train. train),
      member_state = False\<rparr>"

definition member_a :: "bool classifier" where
  "member_a = example_member (1 / 4) (ln 3)"

definition member_b :: "bool classifier" where
  "member_b = example_member (3 / 4) (- ln 3)"

text \<open>One input of one feature, and its label.\<close>

definition x0 :: ndarray where
  "x0 = Array [Array [Scalar 0]]"

definition y0 :: ndarray where
  "y0 = Array [Array [Scalar 1, Scalar 0]]"

text \<open>The ensemble of the two members with the weights \<open>ws\<close>.\<close>

definition example_ensemble :: "real list \<Rightarrow> bool ensemble" where
  "example_ensemble ws =
     \<lparr>self_nb_classifiers = 2,
      self_input_shape = [1],
      self_nb_classes = 2,
      self_clip_values = (0, 1),
      self_classifier_weights = ws,
      self_classifiers = [member_a, member_b],
      self_learning = None,
      self_learning_phase = None\<rparr>"

text \<open>
  Three members of the same kind, with the probabilities \<open>(3/4, 1/4)\<close>, \<open>(1/2, 1/2)\<close>
  and \<open>(1/4, 3/4)\<close>, and their ensemble with the weights \<open>ws\<close>.
\<close>

definition three_members :: "bool classifier list" where
  "three_members = [example_member (3 / 4) 0, example_member (1 / 2) 0, example_member (1 / 4) 0]"

definition example_ensemble3 :: "real list \<Rightarrow> bool ensemble" where
  "example_ensemble3 ws =
     \<lparr>self_nb_classifiers = 3,
      self_input_shape = [1],
      self_nb_classes = 2,
      self_clip_values = (0, 1),
      self_classifier_weights = ws,
      self_classifiers = three_members,
      self_learning = None,
      self_learning_phase = None\<rparr>"

section \<open>Arrays: scaling, stacking and summing\<close>

lemma shape_scale_nd: "shape (scale_nd w a) = shape a"
proof (induction a)
  case (Scalar v) show ?case by simp
next
  case (Array as)
  show ?case
  proof (cases as)
    case Nil then show ?thesis by simp
  next
    case (Cons b bs)
    with Array have hd: "shape (scale_nd w b) = shape b"
      and tl: "\<And>c. c \<in> set bs \<Longrightarrow> shape (scale_nd w c) = shape c" by simp_all
    from tl have "list_all (\<lambda>c. shape (scale_nd w c) = Some s) bs
        = list_all (\<lambda>c. shape c = Some s) bs" for s
      by (simp add: list_all_iff)
    with hd Cons show ?thesis by (simp add: list_all_iff split: option.splits)
  qed
qed

lemma shape_stack:
  "as \<noteq> [] \<Longrightarrow> list_all (\<lambda>a. shape a = Some s) as \<Longrightarrow> shape (Array as) = Some (length as # s)"
  by (cases as) simp_all

text \<open>
  Arrays of one shape add up to an array of that shape, so the sum of a stacked array
  along its first axis has the shape of the stacked sub-arrays.
\<close>

lemma shape_Array_Some:
  "shape (Array as) = Some t \<longleftrightarrow>
     (as = [] \<and> t = [0]) \<or>
     (as \<noteq> [] \<and> (\<exists>s. t = length as # s \<and> list_all (\<lambda>a. shape a = Some s) as))"
  by (cases as) (auto split: option.splits)

lemma shape_add:
  "shape a = Some s \<Longrightarrow> shape b = Some s \<Longrightarrow> shape (add_nd a b) = Some s"
  "length as = length bs \<Longrightarrow> list_all (\<lambda>a. shape a = Some s) as \<Longrightarrow>
     list_all (\<lambda>a. shape a = Some s) bs \<Longrightarrow>
     length (add_list as bs) = length as \<and> list_all (\<lambda>a. shape a = Some s) (add_list as bs)"
proof (induction a b and as bs arbitrary: s and s rule: add_nd_add_list.induct)
  case (1 u v) then show ?case by simp
next
  case (2 as bs)
  show ?case
  proof (cases "as = []")
    case True
    with 2 show ?thesis by (cases bs) (auto simp: shape_Array_Some)
  next
    case False
    with "2.prems" obtain s' where s: "s = length as # s'"
      and as: "list_all (\<lambda>a. shape a = Some s') as"
      by (auto simp: shape_Array_Some)
    from "2.prems" s have bs: "length bs = length as" "list_all (\<lambda>a. shape a = Some s') bs"
      by (auto simp: shape_Array_Some)
    from "2.IH" [OF bs(1) [symmetric] as bs(2)] False s show ?thesis
      by (auto simp: shape_Array_Some)
  qed
next
  case (3 u bs) then show ?case by (simp add: shape_Array_Some) 
next
  case (4 as v) then show ?case by (cases as) (simp_all split: option.splits if_splits)
next
  case (5 a as b bs)
  from "5.prems" have len: "length as = length bs"
    and a: "shape a = Some s" "shape b = Some s"
    and r: "list_all (\<lambda>a. shape a = Some s) as" "list_all (\<lambda>a. shape a = Some s) bs"
    by simp_all
  from "5.IH"(1) [OF a] "5.IH"(2) [OF len r] show ?case by simp
next
  case (6 bs) then show ?case by simp
next
  case (7 as) then show ?case by simp
qed

lemma shape_foldl_add:
  "shape a = Some s \<Longrightarrow> list_all (\<lambda>b. shape b = Some s) bs \<Longrightarrow>
   shape (foldl add_nd a bs) = Some s"
  by (induction bs arbitrary: a) (simp_all add: shape_add(1))

lemma shape_np_sum_axis0:
  "as \<noteq> [] \<Longrightarrow> shape (Array as) = Some (n # s) \<Longrightarrow> shape (np_sum_axis0 (Array as)) = Some s"
  by (cases as) (auto simp: shape_foldl_add split: option.splits if_splits)

lemma scale_nd_add:
  "scale_nd w (add_nd a b) = add_nd (scale_nd w a) (scale_nd w b)"
  "map (scale_nd w) (add_list as bs) = add_list (map (scale_nd w) as) (map (scale_nd w) bs)"
  by (induction a b and as bs rule: add_nd_add_list.induct) (simp_all add: distrib_left)

lemma scale_nd_foldl:
  "scale_nd w (foldl add_nd a as) = foldl add_nd (scale_nd w a) (map (scale_nd w) as)"
  by (induction as arbitrary: a) (simp_all add: scale_nd_add)

lemma np_sum_axis0_scale:
  "np_sum_axis0 (Array (map (scale_nd w) as)) = scale_nd w (np_sum_axis0 (Array as))"
  by (cases as) (simp_all add: scale_nd_foldl)

section \<open>The list comprehension\<close>

lemma weighted_outputs_Inr:
  "list_all (\<lambda>i. i < length ws \<and> i < length cs) is \<Longrightarrow>
   weighted_outputs ws cs m is = Inr (map (\<lambda>i. scale_nd (ws ! i) (m (cs ! i))) is)"
  by (induction "is") simp_all

lemma weighted_outputs_Inl:
  "\<not> list_all (\<lambda>i. i < length ws \<and> i < length cs) is \<Longrightarrow>
   weighted_outputs ws cs m is = Inl IndexError"
  by (induction "is") (auto simp: weighted_outputs_Inr)

lemma weighted_outputs_range:
  "n \<le> length ws \<Longrightarrow> n \<le> length cs \<Longrightarrow>
   weighted_outputs ws cs m [0..<n] = Inr (map (\<lambda>i. scale_nd (ws ! i) (m (cs ! i))) [0..<n])"
  by (rule weighted_outputs_Inr) (simp add: list_all_iff)

lemma weighted_outputs_short:
  "length ws < n \<or> length cs < n \<Longrightarrow> weighted_outputs ws cs m [0..<n] = Inl IndexError"
  by (rule weighted_outputs_Inl) (auto simp add: list_all_iff)

section \<open>Construction\<close>

lemma check_classifiers_Inr:
  "check_classifiers cv cls rest = Inr cs \<Longrightarrow>
   rest = map Instance cs \<and>
   list_all (\<lambda>c. clip_values c = cv \<and>
      (case cls of Instance c0 # _ \<Rightarrow> nb_classes c = nb_classes c0 \<and> input_shape c = input_shape c0
       | _ \<Rightarrow> False)) cs"
proof (induction rest arbitrary: cs)
  case Nil then show ?case by simp
next
  case (Cons r rest)
  show ?case
  proof (cases r)
    case Foreign with Cons.prems show ?thesis by simp
  next
    case (Instance c)
    from Cons.prems Instance obtain c0 others where cls: "cls = Instance c0 # others"
      by (cases cls; cases "hd cls") (simp_all split: if_splits)
    from Cons.prems Instance cls obtain cs' where
      ok: "clip_values c = cv" "nb_classes c = nb_classes c0" "input_shape c = input_shape c0"
      and rec: "check_classifiers cv cls rest = Inr cs'" and cs: "cs = c # cs'"
      by (auto split: if_splits sum.splits)
    from Cons.IH [OF rec] ok cs cls Instance show ?thesis by simp
  qed
qed

lemma check_classifiers_iff:
  "check_classifiers cv (Instance c0 # others) (map Instance cs) =
     (if list_all (\<lambda>c. clip_values c = cv \<and> nb_classes c = nb_classes c0 \<and> input_shape c = input_shape c0) cs
      then Inr cs else Inl ValueError)"
  by (induction cs) auto

lemma init_Inr:
  assumes "init cv classifiers classifier_weights = Inr e"
  shows "classifiers = Some (map Instance (self_classifiers e))"
    and "self_classifiers e \<noteq> []"
    and "self_nb_classifiers e = length (self_classifiers e)"
    and "list_all (\<lambda>c. clip_values c = cv \<and> nb_classes c = nb_classes (hd (self_classifiers e))
           \<and> input_shape c = input_shape (hd (self_classifiers e))) (self_classifiers e)"
    and "self_classifier_weights e =
           (case classifier_weights of
              None \<Rightarrow> replicate (self_nb_classifiers e) (1 / real (self_nb_classifiers e))
            | Some ws \<Rightarrow> ws)"
    and "self_clip_values e = cv"
    and "self_nb_classes e = nb_classes (hd (self_classifiers e))"
    and "self_input_shape e = input_shape (hd (self_classifiers e))"
    and "self_learning e = None"
    and "self_learning_phase e = None"
proof -
  from assms obtain cls cs where cls: "classifiers = Some cls" "cls \<noteq> []"
    and chk: "check_classifiers cv cls cls = Inr cs"
    and e: "e = \<lparr>self_nb_classifiers = length cls,
                 self_input_shape = input_shape (hd cs),
                 self_nb_classes = nb_classes (hd cs),
                 self_clip_values = cv,
                 self_classifier_weights =
                   (case classifier_weights of
                      None \<Rightarrow> replicate (length cls) (1 / real (length cls))
                    | Some ws \<Rightarrow> ws),
                 self_classifiers = cs,
                 self_learning = None,
                 self_learning_phase = None\<rparr>"
    by (auto simp: init_def split: option.splits if_splits sum.splits)
  have m: "cls = map Instance cs"
    using check_classifiers_Inr [OF chk] by (rule conjunct1)
  have a: "list_all (\<lambda>c. clip_values c = cv \<and>
      (case cls of Instance c0 # _ \<Rightarrow> nb_classes c = nb_classes c0 \<and> input_shape c = input_shape c0
       | _ \<Rightarrow> False)) cs"
    using check_classifiers_Inr [OF chk] by (rule conjunct2)
  from m cls obtain c0 cs0 where cs: "cs = c0 # cs0" by (cases cs) auto
  show "classifiers = Some (map Instance (self_classifiers e))" using cls m e by simp
  show "self_classifiers e \<noteq> []" using cs e by simp
  show "self_nb_classifiers e = length (self_classifiers e)" using m e by simp
  show "list_all (\<lambda>c. clip_values c = cv \<and> nb_classes c = nb_classes (hd (self_classifiers e))
           \<and> input_shape c = input_shape (hd (self_classifiers e))) (self_classifiers e)"
    using a m cs e by (simp add: list_all_iff)
  show "self_classifier_weights e =
           (case classifier_weights of
              None \<Rightarrow> replicate (self_nb_classifiers e) (1 / real (self_nb_classifiers e))
            | Some ws \<Rightarrow> ws)" using e by (simp split: option.splits)
  show "self_clip_values e = cv" "self_nb_classes e = nb_classes (hd (self_classifiers e))"
    "self_input_shape e = input_shape (hd (self_classifiers e))"
    "self_learning e = None" "self_learning_phase e = None"
    using e by simp_all
qed

section \<open>The three queries, unfolded\<close>

lemma np_array_same_shape:
  "as \<noteq> [] \<Longrightarrow> list_all (\<lambda>a. shape a = Some s) as \<Longrightarrow> np_array as = Inr (Array as)"
  by (simp add: np_array_def shape_stack)

lemma stacked_outputs:
  assumes ne: "cs \<noteq> []" and len: "length cs \<le> length ws"
    and sh: "list_all (\<lambda>c. shape (m c) = Some s) cs"
  shows "weighted_outputs ws cs m [0..<length cs]
           = Inr (map (\<lambda>i. scale_nd (ws ! i) (m (cs ! i))) [0..<length cs])"
    and "np_array (map (\<lambda>i. scale_nd (ws ! i) (m (cs ! i))) [0..<length cs])
           = Inr (Array (map (\<lambda>i. scale_nd (ws ! i) (m (cs ! i))) [0..<length cs]))"
proof -
  show "weighted_outputs ws cs m [0..<length cs]
           = Inr (map (\<lambda>i. scale_nd (ws ! i) (m (cs ! i))) [0..<length cs])"
    using len by (simp add: weighted_outputs_range)
  have "list_all (\<lambda>a. shape a = Some s) (map (\<lambda>i. scale_nd (ws ! i) (m (cs ! i))) [0..<length cs])"
    using sh by (simp add: list_all_iff shape_scale_nd)
  moreover have "map (\<lambda>i. scale_nd (ws ! i) (m (cs ! i))) [0..<length cs] \<noteq> []"
    using ne by simp
  ultimately show "np_array (map (\<lambda>i. scale_nd (ws ! i) (m (cs ! i))) [0..<length cs])
           = Inr (Array (map (\<lambda>i. scale_nd (ws ! i) (m (cs ! i))) [0..<length cs]))"
    by (rule np_array_same_shape [rotated])
qed

lemma predict_unfold:
  assumes "self_nb_classifiers self \<le> length (self_classifier_weights self)"
    and "self_nb_classifiers self \<le> length (self_classifiers self)"
  shows "predict self x logits raw =
     (case np_array (map (\<lambda>i. scale_nd (self_classifier_weights self ! i)
                               (call_predict (self_classifiers self ! i) x (raw \<and> logits)))
                      [0..<self_nb_classifiers self]) of
        Inl e \<Rightarrow> Inl e
      | Inr preds \<Rightarrow>
          Inr (if raw then preds
               else if logits then np_log (np_clip (np_sum_axis0 preds) (1 / 10 ^ 7) (1 - 1 / 10 ^ 7))
               else np_sum_axis0 preds))"
  using assms by (simp add: predict_def weighted_outputs_range Let_def split: sum.splits)

lemma class_gradient_unfold:
  assumes "self_nb_classifiers self \<le> length (self_classifier_weights self)"
    and "self_nb_classifiers self \<le> length (self_classifiers self)"
  shows "class_gradient self x label logits raw =
     (case np_array (map (\<lambda>i. scale_nd (self_classifier_weights self ! i)
                               (call_class_gradient (self_classifiers self ! i) x label logits))
                      [0..<self_nb_classifiers self]) of
        Inl e \<Rightarrow> Inl e
      | Inr grads \<Rightarrow> Inr (if raw then grads else np_sum_axis0 grads))"
  using assms by (simp add: class_gradient_def weighted_outputs_range split: sum.splits)

lemma loss_gradient_unfold:
  assumes "self_nb_classifiers self \<le> length (self_classifier_weights self)"
    and "self_nb_classifiers self \<le> length (self_classifiers self)"
  shows "loss_gradient self x y raw =
     (case np_array (map (\<lambda>i. scale_nd (self_classifier_weights self ! i)
                               (call_loss_gradient (self_classifiers self ! i) x y))
                      [0..<self_nb_classifiers self]) of
        Inl e \<Rightarrow> Inl e
      | Inr grads \<Rightarrow> Inr (if raw then grads else np_sum_axis0 grads))"
  using assms by (simp add: loss_gradient_def weighted_outputs_range split: sum.splits)

lemma queries_short_weights:
  assumes "length (self_classifier_weights self) < self_nb_classifiers self"
  shows "predict self x logits raw = Inl IndexError"
    and "class_gradient self x label logits raw = Inl IndexError"
    and "loss_gradient self x y raw = Inl IndexError"
  using assms
  by (simp_all add: predict_def class_gradient_def loss_gradient_def weighted_outputs_short)

lemma map_nd_comp: "map_nd f (map_nd g a) = map_nd (\<lambda>v. f (g v)) a"
  by (induction a) simp_all

lemma map_nth_upt: "map (\<lambda>i. f (xs ! i)) [0..<length xs] = map f xs"
  by (rule nth_equalityI) simp_all

lemma predict_aggregate_from_raw:
  "predict self x logits False =
     (case predict self x False True of
        Inl err \<Rightarrow> Inl err
      | Inr preds \<Rightarrow>
          Inr (if logits then np_log (np_clip (np_sum_axis0 preds) (1 / 10 ^ 7) (1 - 1 / 10 ^ 7))
               else np_sum_axis0 preds))"
  by (simp add: predict_def Let_def split: sum.splits)

lemma weighted_outputs_cong:
  assumes "length cs' = length cs"
    and "\<forall>i < length cs. m' (cs' ! i) = m (cs ! i)"
    and "list_all (\<lambda>i. i < length cs) is"
  shows "weighted_outputs ws cs' m' is = weighted_outputs ws cs m is"
  using assms(3)
proof (induction "is")
  case Nil show ?case by simp
next
  case (Cons i "is")
  then have "m' (cs' ! i) = m (cs ! i)" using assms(2) by simp
  with Cons show ?case using assms(1) by (simp split: sum.splits)
qed

lemma weighted_outputs_beyond:
  "\<not> list_all (\<lambda>i. i < length cs) is \<Longrightarrow> weighted_outputs ws cs m is = Inl IndexError"
  by (rule weighted_outputs_Inl) (auto simp: list_all_iff)

section \<open>Constructed ensembles\<close>

lemma init_members:
  assumes "cs \<noteq> []"
  shows "init cv (Some (map Instance cs)) classifier_weights =
     (if list_all (\<lambda>c. clip_values c = cv \<and> nb_classes c = nb_classes (hd cs)
                       \<and> input_shape c = input_shape (hd cs)) cs
      then Inr \<lparr>self_nb_classifiers = length cs,
                self_input_shape = input_shape (hd cs),
                self_nb_classes = nb_classes (hd cs),
                self_clip_values = cv,
                self_classifier_weights =
                  (case classifier_weights of
                     None \<Rightarrow> replicate (length cs) (1 / real (length cs))
                   | Some ws \<Rightarrow> ws),
                self_classifiers = cs,
                self_learning = None,
                self_learning_phase = None\<rparr>
      else Inl ValueError)"
proof -
  from assms obtain c0 rest where cs: "cs = c0 # rest" by (cases cs) auto
  have "check_classifiers cv (map Instance cs) (map Instance cs) =
     (if list_all (\<lambda>c. clip_values c = cv \<and> nb_classes c = nb_classes (hd cs)
                       \<and> input_shape c = input_shape (hd cs)) cs
      then Inr cs else Inl ValueError)"
    using check_classifiers_iff [of cv c0 "map Instance rest" cs] cs by simp
  then show ?thesis using assms by (simp add: init_def split: option.splits)
qed

lemma init_foreign_first:
  "init cv (Some (Foreign # rest)) classifier_weights = Inl TypeError"
  by (simp add: init_def)

lemma constructed_stack:
  assumes init: "init cv classifiers classifier_weights = Inr e"
    and len: "self_nb_classifiers e \<le> length (self_classifier_weights e)"
    and sh: "list_all (\<lambda>c. shape (m c) = Some s) (self_classifiers e)"
  shows "np_array (map (\<lambda>i. scale_nd (self_classifier_weights e ! i) (m (self_classifiers e ! i)))
                    [0..<self_nb_classifiers e])
         = Inr (Array (map (\<lambda>i. scale_nd (self_classifier_weights e ! i) (m (self_classifiers e ! i)))
                    [0..<self_nb_classifiers e]))"
proof -
  have n: "self_nb_classifiers e = length (self_classifiers e)" and ne: "self_classifiers e \<noteq> []"
    using init_Inr [OF init] by simp_all
  from stacked_outputs(2) [OF ne _ sh, of "self_classifier_weights e"] len n
  show ?thesis by simp
qed

lemma constructed_predict_shapes:
  assumes init: "init cv classifiers classifier_weights = Inr e"
    and conf: "list_all (predict_conforms x logits) (self_classifiers e)"
  shows "list_all (\<lambda>c. shape (call_predict c x logits) = Some [nb_inputs x, self_nb_classes e])
           (self_classifiers e)"
  using init_Inr(4,7) [OF init] conf by (simp add: list_all_iff predict_conforms_def)

lemma constructed_class_gradient_shapes:
  assumes init: "init cv classifiers classifier_weights = Inr e"
    and conf: "list_all (class_gradient_conforms x label logits) (self_classifiers e)"
  shows "list_all (\<lambda>c. shape (call_class_gradient c x label logits) =
            Some (nb_inputs x # (case label of None \<Rightarrow> self_nb_classes e | Some l \<Rightarrow> 1)
                    # self_input_shape e)) (self_classifiers e)"
  using init_Inr(4,7,8) [OF init] conf
  by (simp add: list_all_iff class_gradient_conforms_def split: option.splits)

lemma constructed_loss_gradient_shapes:
  assumes conf: "list_all (loss_gradient_conforms x y) (self_classifiers e)"
  shows "list_all (\<lambda>c. shape (call_loss_gradient c x y) = Some (the (shape x))) (self_classifiers e)"
  using conf by (auto simp add: list_all_iff loss_gradient_conforms_def)

section \<open>The two example members, evaluated\<close>

lemma example_fields:
  "clip_values (example_member p l) = (0, 1)"
  "nb_classes (example_member p l) = 2"
  "input_shape (example_member p l) = [1]"
  "member_state (example_member p l) = False"
  by (simp_all add: example_member_def)

lemma example_calls:
  "call_predict (example_member p l) x logits =
     (if logits then Array [Array [Scalar 0, Scalar l]] else Array [Array [Scalar p, Scalar (1 - p)]])"
  "call_class_gradient (example_member p l) x label logits =
     (case label of None \<Rightarrow> Array [Array [Array [Scalar p], Array [Scalar (- p)]]]
      | Some k \<Rightarrow> Array [Array [Array [Scalar p]]])"
  "call_loss_gradient (example_member p l) x y = Array [Array [Scalar p]]"
  by (simp_all add: call_predict_def call_class_gradient_def call_loss_gradient_def
      example_member_def)

lemma example_conforms:
  "predict_conforms x0 logits (example_member p l)"
  "class_gradient_conforms x0 label logits (example_member p l)"
  "loss_gradient_conforms x0 y (example_member p l)"
  by (simp_all add: predict_conforms_def class_gradient_conforms_def loss_gradient_conforms_def
      example_calls example_fields x0_def nb_inputs_def split: option.splits)

lemma example_members_conform:
  "list_all (predict_conforms x0 logits) [member_a, member_b]"
  "list_all (class_gradient_conforms x0 label logits) [member_a, member_b]"
  "list_all (loss_gradient_conforms x0 y) [member_a, member_b]"
  by (simp_all add: member_a_def member_b_def example_conforms)

lemma example_ensemble_fields:
  "self_nb_classifiers (example_ensemble ws) = 2"
  "self_classifier_weights (example_ensemble ws) = ws"
  "self_classifiers (example_ensemble ws) = [member_a, member_b]"
  "self_learning (example_ensemble ws) = None"
  "self_learning_phase (example_ensemble ws) = None"
  "self_nb_classes (example_ensemble ws) = 2"
  "self_input_shape (example_ensemble ws) = [1]"
  "self_clip_values (example_ensemble ws) = (0, 1)"
  by (simp_all add: example_ensemble_def)

lemma init_example:
  "init (0, 1) (Some [Instance member_a, Instance member_b]) (Some ws)
     = Inr (example_ensemble ws)"
  by (simp add: init_def example_ensemble_def member_a_def member_b_def example_member_def)

lemma init_example_default:
  "init (0, 1) (Some [Instance member_a, Instance member_b]) None
     = Inr (example_ensemble [1 / 2, 1 / 2])"
  by (simp add: init_def example_ensemble_def member_a_def member_b_def example_member_def
      numeral_2_eq_2)

lemma example_predict:
  "predict (example_ensemble [w1, w2]) x0 False True
     = Inr (Array [Array [Array [Scalar (w1 * (1 / 4)), Scalar (w1 * (3 / 4))]],
                   Array [Array [Scalar (w2 * (3 / 4)), Scalar (w2 * (1 / 4))]]])"
  "predict (example_ensemble [w1, w2]) x0 False False
     = Inr (Array [Array [Scalar (w1 * (1 / 4) + w2 * (3 / 4)),
                          Scalar (w1 * (3 / 4) + w2 * (1 / 4))]])"
  "predict (example_ensemble [w1, w2]) x0 True True
     = Inr (Array [Array [Array [Scalar 0, Scalar (w1 * ln 3)]],
                   Array [Array [Scalar 0, Scalar (- (w2 * ln 3))]]])"
  by (simp_all add: predict_def example_ensemble_def member_a_def member_b_def example_calls
      np_array_def upt_rec)

lemma example_predict_logits:
  "predict (example_ensemble [1 / 2, 1 / 2]) x0 True False
     = Inr (Array [Array [Scalar (ln (1 / 2)), Scalar (ln (1 / 2))]])"
  by (simp add: predict_def example_ensemble_def member_a_def member_b_def example_calls
      np_array_def upt_rec np_log_def np_clip_def)

lemma example_gradients:
  "class_gradient (example_ensemble [w1, w2]) x0 None logits True
     = Inr (Array [Array [Array [Array [Scalar (w1 * (1 / 4))], Array [Scalar (- (w1 * (1 / 4)))]]],
                   Array [Array [Array [Scalar (w2 * (3 / 4))], Array [Scalar (- (w2 * (3 / 4)))]]]])"
  "class_gradient (example_ensemble [w1, w2]) x0 None logits False
     = Inr (Array [Array [Array [Scalar (w1 * (1 / 4) + w2 * (3 / 4))],
                          Array [Scalar (- (w1 * (1 / 4)) - w2 * (3 / 4))]]])"
  "loss_gradient (example_ensemble [w1, w2]) x0 y0 True
     = Inr (Array [Array [Array [Scalar (w1 * (1 / 4))]], Array [Array [Scalar (w2 * (3 / 4))]]])"
  "loss_gradient (example_ensemble [w1, w2]) x0 y0 False
     = Inr (Array [Array [Scalar (w1 * (1 / 4) + w2 * (3 / 4))]])"
  by (simp_all add: class_gradient_def loss_gradient_def example_ensemble_def member_a_def
      member_b_def example_calls np_array_def upt_rec)

section \<open>float64 arithmetic, evaluated\<close>

text \<open>
  A number between \<open>2^e\<close> and \<open>2^(e+1)\<close> is rounded to a multiple of \<open>2^(e-52)\<close>.
\<close>

lemma fl64_normal:
  assumes "2 powr of_int e \<le> \<bar>x\<bar>" and "\<bar>x\<bar> < 2 powr (of_int e + 1)" and "- 1022 \<le> e"
  shows "fl64 x = of_int (round_half_even (x / 2 powr (of_int e - 52))) * 2 powr (of_int e - 52)"
proof -
  have pos: "0 < \<bar>x\<bar>" using assms(1) by (smt (verit) powr_gt_zero)
  then have "\<lfloor>log 2 \<bar>x\<bar>\<rfloor> = e"
    using assms(1,2) by (simp add: floor_log_eq_powr_iff)
  with pos assms(3) show ?thesis by (simp add: fl64_def Let_def max_def)
qed

text \<open>
  The float64 nearest to \<open>1/3\<close>, its products with the three probabilities, and the
  sums of the products, in the order in which \<open>np.sum\<close> adds them.
\<close>

lemma fl64_third: "fl64 (1 / 3) = 6004799503160661 / 2 ^ 54"
  using fl64_normal [of "- 2" "1 / 3"]
  by (simp add: powr_neg_numeral round_half_even_def Let_def)

lemma fl64_products:
  "fl64 (6004799503160661 / 2 ^ 54 * (3 / 4)) = 1 / 4"
  "fl64 (6004799503160661 / 2 ^ 54 * (1 / 2)) = 6004799503160661 / 2 ^ 55"
  "fl64 (6004799503160661 / 2 ^ 54 * (1 / 4)) = 6004799503160661 / 2 ^ 56"
  using fl64_normal [of "- 3" "6004799503160661 / 2 ^ 54 * (3 / 4)"]
    fl64_normal [of "- 3" "6004799503160661 / 2 ^ 54 * (1 / 2)"]
    fl64_normal [of "- 4" "6004799503160661 / 2 ^ 54 * (1 / 4)"]
  by (simp_all add: powr_neg_numeral round_half_even_def Let_def)

lemma fl64_sums:
  "fl64 (1 / 4 + 6004799503160661 / 2 ^ 55) = 7505999378950826 / 2 ^ 54"
  "fl64 (7505999378950826 / 2 ^ 54 + 6004799503160661 / 2 ^ 56) = 9007199254740991 / 2 ^ 54"
  "fl64 (6004799503160661 / 2 ^ 56 + 6004799503160661 / 2 ^ 55) = 1 / 4"
  "fl64 (1 / 4 + 1 / 4) = 1 / 2"
  using fl64_normal [of "- 2" "1 / 4 + 6004799503160661 / 2 ^ 55"]
    fl64_normal [of "- 2" "7505999378950826 / 2 ^ 54 + 6004799503160661 / 2 ^ 56"]
    fl64_normal [of "- 3" "6004799503160661 / 2 ^ 56 + 6004799503160661 / 2 ^ 55"]
    fl64_normal [of "- 1" "1 / 4 + 1 / 4"]
  by (simp_all add: powr_neg_numeral round_half_even_def Let_def)

lemma fl64_mean:
  "fl64 (3 / 4 + 1 / 2) = 5 / 4"
  "fl64 (5 / 4 + 1 / 4) = 3 / 2"
  "fl64 (3 / 2 / 3) = 1 / 2"
  using fl64_normal [of 0 "3 / 4 + 1 / 2"] fl64_normal [of 0 "5 / 4 + 1 / 4"]
    fl64_normal [of "- 1" "3 / 2 / 3"]
  by (simp_all add: powr_neg_numeral round_half_even_def Let_def)

lemma shape_scale_f64: "shape (scale_f64 w a) = shape a"
proof (induction a)
  case (Scalar v) show ?case by simp
next
  case (Array as)
  show ?case
  proof (cases as)
    case Nil then show ?thesis by simp
  next
    case (Cons b bs)
    with Array have hd: "shape (scale_f64 w b) = shape b"
      and tl: "\<And>c. c \<in> set bs \<Longrightarrow> shape (scale_f64 w c) = shape c" by simp_all
    from tl have "list_all (\<lambda>c. shape (scale_f64 w c) = Some s) bs
        = list_all (\<lambda>c. shape c = Some s) bs" for s
      by (simp add: list_all_iff)
    with hd Cons show ?thesis by (simp add: list_all_iff split: option.splits)
  qed
qed

lemma weighted_outputs_f64_Inr:
  "list_all (\<lambda>i. i < length ws \<and> i < length cs) is \<Longrightarrow>
   weighted_outputs_f64 ws cs m is = Inr (map (\<lambda>i. scale_f64 (ws ! i) (m (cs ! i))) is)"
  by (induction "is") simp_all

lemma init_f64_init:
  "init_f64 cv classifiers classifier_weights =
     (case init cv classifiers classifier_weights of
        Inl err \<Rightarrow> Inl err
      | Inr e \<Rightarrow>
          Inr (case classifier_weights of
                 None \<Rightarrow> e\<lparr>self_classifier_weights :=
                            replicate (self_nb_classifiers e) (fl64 (1 / real (self_nb_classifiers e)))\<rparr>
               | Some ws \<Rightarrow> e))"
  by (simp add: init_f64_def init_def split: option.splits sum.splits)

lemma three_members_conform:
  "list_all (predict_conforms x0 logits) three_members"
  by (simp add: three_members_def example_conforms)

lemma init_f64_three:
  "init_f64 (0, 1)
     (Some [Instance (example_member (3 / 4) 0), Instance (example_member (1 / 2) 0),
            Instance (example_member (1 / 4) 0)]) None
     = Inr (example_ensemble3 [6004799503160661 / 2 ^ 54, 6004799503160661 / 2 ^ 54,
                               6004799503160661 / 2 ^ 54])"
  by (simp add: init_f64_def example_ensemble3_def three_members_def example_fields
      fl64_third numeral_3_eq_3)

lemma predict_f64_three:
  "predict_f64 flog
     (example_ensemble3 [6004799503160661 / 2 ^ 54, 6004799503160661 / 2 ^ 54,
                         6004799503160661 / 2 ^ 54]) x0 False False
     = Inr (Array [Array [Scalar (9007199254740991 / 2 ^ 54), Scalar (1 / 2)]])"
proof -
  let ?w = "6004799503160661 / 2 ^ 54 :: real"
  have c: "call_predict (three_members ! 0) x0 False = Array [Array [Scalar (3 / 4), Scalar (1 / 4)]]"
    "call_predict (three_members ! 1) x0 False = Array [Array [Scalar (1 / 2), Scalar (1 / 2)]]"
    "call_predict (three_members ! 2) x0 False = Array [Array [Scalar (1 / 4), Scalar (3 / 4)]]"
    by (simp_all add: three_members_def example_calls)
  have outs: "weighted_outputs_f64 [?w, ?w, ?w] three_members (\<lambda>c. call_predict c x0 False) [0, 1, 2]
     = Inr [Array [Array [Scalar (1 / 4), Scalar (6004799503160661 / 2 ^ 56)]],
            Array [Array [Scalar (6004799503160661 / 2 ^ 55), Scalar (6004799503160661 / 2 ^ 55)]],
            Array [Array [Scalar (6004799503160661 / 2 ^ 56), Scalar (1 / 4)]]]"
  proof -
    have l: "length three_members = 3" by (simp add: three_members_def)
    have "weighted_outputs_f64 [?w, ?w, ?w] three_members (\<lambda>c. call_predict c x0 False) [0, 1, 2]
      = Inr [scale_f64 ?w (call_predict (three_members ! 0) x0 False),
             scale_f64 ?w (call_predict (three_members ! 1) x0 False),
             scale_f64 ?w (call_predict (three_members ! 2) x0 False)]"
      by (simp add: l)
    also have "\<dots> = Inr [Array [Array [Scalar (1 / 4), Scalar (6004799503160661 / 2 ^ 56)]],
            Array [Array [Scalar (6004799503160661 / 2 ^ 55), Scalar (6004799503160661 / 2 ^ 55)]],
            Array [Array [Scalar (6004799503160661 / 2 ^ 56), Scalar (1 / 4)]]]"
      by (simp only: c scale_f64.simps list.map fl64_products)
    finally show ?thesis .
  qed
  have sum: "np_sum_axis0_f64 (Array
           [Array [Array [Scalar (1 / 4), Scalar (6004799503160661 / 2 ^ 56)]],
            Array [Array [Scalar (6004799503160661 / 2 ^ 55), Scalar (6004799503160661 / 2 ^ 55)]],
            Array [Array [Scalar (6004799503160661 / 2 ^ 56), Scalar (1 / 4)]]])
       = Array [Array [Scalar (9007199254740991 / 2 ^ 54), Scalar (1 / 2)]]"
    by (simp only: np_sum_axis0_f64.simps foldl.simps add_f64.simps add_list_f64.simps fl64_sums)
  have st: "np_array
           [Array [Array [Scalar (1 / 4), Scalar (6004799503160661 / 2 ^ 56)]],
            Array [Array [Scalar (6004799503160661 / 2 ^ 55), Scalar (6004799503160661 / 2 ^ 55)]],
            Array [Array [Scalar (6004799503160661 / 2 ^ 56), Scalar (1 / 4)]]]
       = Inr (Array
           [Array [Array [Scalar (1 / 4), Scalar (6004799503160661 / 2 ^ 56)]],
            Array [Array [Scalar (6004799503160661 / 2 ^ 55), Scalar (6004799503160661 / 2 ^ 55)]],
            Array [Array [Scalar (6004799503160661 / 2 ^ 56), Scalar (1 / 4)]]])"
    by (simp add: np_array_def)
  have u: "[0..<3] = [0, 1, 2]" by (simp add: upt_rec)
  show ?thesis
    unfolding predict_f64_def example_ensemble3_def
    by (simp only: ensemble.simps simp_thms u outs st sum sum.case if_False Let_def)
qed

section \<open>The claims\<close>

subsection \<open>C1: the raw predictions add up to the aggregated prediction\<close>

text \<open>
  C1 says that, for a validly constructed ensemble, \<open>predict(x, raw=True)\<close> is a stacked
  array with one entry per member along the first axis, and that its sum along that axis
  is \<open>predict(x, raw=False)\<close>, whatever the \<open>logits\<close> flag. The first part holds for both
  values of the flag; the second holds for \<open>logits=False\<close> only. With \<open>logits=True\<close>
  the raw call queries the members for logits, while the aggregated call adds up their
  weighted probabilities and takes \<open>log(clip(.))\<close> of the sum.

  C1, as the code has it: for an ensemble that \<open>__init__\<close> returned, with a weight for
  every member, and members whose predictions have the shape
  \<open>(nb_inputs, nb_classes)\<close>, \<open>predict(x, logits, raw=True)\<close> returns a stacked array with
  one entry per member, and for \<open>logits=False\<close> its sum along the first axis is
  \<open>predict(x, logits, raw=False)\<close>.
\<close>

theorem predict_raw_sums_to_aggregate:
  assumes "init cv classifiers classifier_weights = Inr e"
    and "self_nb_classifiers e \<le> length (self_classifier_weights e)"
    and "list_all (predict_conforms x logits) (self_classifiers e)"
  shows "\<exists>preds. predict e x logits True = Inr (Array preds) \<and>
           length preds = self_nb_classifiers e \<and>
           (\<not> logits \<longrightarrow> predict e x logits False = Inr (np_sum_axis0 (Array preds)))"
proof -
  have n: "self_nb_classifiers e \<le> length (self_classifiers e)"
    using init_Inr(3) [OF assms(1)] by simp
  note st = constructed_stack [OF assms(1,2) constructed_predict_shapes [OF assms(1,3)]]
  show ?thesis
    using st by (cases logits) (simp_all add: predict_unfold [OF assms(2) n])
qed

text \<open>
  The two example members with the default weights: the raw probabilities
  \<open>[[1/8, 3/8]]\<close> and \<open>[[3/8, 1/8]]\<close> add up to the aggregated \<open>[[1/2, 1/2]]\<close>.
\<close>

theorem predict_raw_sums_to_aggregate_witness:
  "init (0, 1) (Some [Instance member_a, Instance member_b]) None
     = Inr (example_ensemble [1 / 2, 1 / 2]) \<and>
   predict (example_ensemble [1 / 2, 1 / 2]) x0 False True
     = Inr (Array [Array [Array [Scalar (1 / 8), Scalar (3 / 8)]],
                   Array [Array [Scalar (3 / 8), Scalar (1 / 8)]]]) \<and>
   predict (example_ensemble [1 / 2, 1 / 2]) x0 False False
     = Inr (np_sum_axis0 (Array [Array [Array [Scalar (1 / 8), Scalar (3 / 8)]],
                                 Array [Array [Scalar (3 / 8), Scalar (1 / 8)]]])) \<and>
   predict (example_ensemble [1 / 2, 1 / 2]) x0 False False
     = Inr (Array [Array [Scalar (1 / 2), Scalar (1 / 2)]])"
proof -
  let ?e = "example_ensemble [1 / 2, 1 / 2]"
  have h1: "init (0, 1) (Some [Instance member_a, Instance member_b]) None = Inr ?e"
    by (rule init_example_default)
  have h2: "self_nb_classifiers ?e \<le> length (self_classifier_weights ?e)"
    by (simp add: example_ensemble_fields)
  have h3: "list_all (predict_conforms x0 False) (self_classifiers ?e)"
    by (simp only: example_ensemble_fields example_members_conform)
  from predict_raw_sums_to_aggregate [OF h1 h2 h3] h1 show ?thesis
    by (simp add: example_predict)
qed

text \<open>
  C1 fails for \<open>logits=True\<close>. The same ensemble: the raw logit outputs are
  \<open>[[0, ln 3 / 2]]\<close> and \<open>[[0, - ln 3 / 2]]\<close>, whose sum is \<open>[[0, 0]]\<close>; the aggregated
  call returns \<open>[[ln (1/2), ln (1/2)]]\<close>, and \<open>ln (1/2)\<close> is at most \<open>- 1/2\<close>.
\<close>

theorem predict_raw_logits_counterexample:
  "init (0, 1) (Some [Instance member_a, Instance member_b]) None
     = Inr (example_ensemble [1 / 2, 1 / 2]) \<and>
   predict (example_ensemble [1 / 2, 1 / 2]) x0 True True
     = Inr (Array [Array [Array [Scalar 0, Scalar (ln 3 / 2)]],
                   Array [Array [Scalar 0, Scalar (- (ln 3 / 2))]]]) \<and>
   np_sum_axis0 (Array [Array [Array [Scalar 0, Scalar (ln 3 / 2)]],
                        Array [Array [Scalar 0, Scalar (- (ln 3 / 2))]]])
     = Array [Array [Scalar 0, Scalar 0]] \<and>
   predict (example_ensemble [1 / 2, 1 / 2]) x0 True False
     = Inr (Array [Array [Scalar (ln (1 / 2)), Scalar (ln (1 / 2))]]) \<and>
   ln (1 / 2) \<le> - (1 / 2 :: real)"
proof -
  have "ln (1 / 2) \<le> (1 / 2 :: real) - 1" by (rule ln_le_minus_one) simp
  then have "ln (1 / 2) \<le> - (1 / 2 :: real)" by simp
  then show ?thesis
    by (simp add: init_example_default example_predict example_predict_logits)
qed

subsection \<open>C2: the flag the members are queried with\<close>

text \<open>
  C2: in \<open>predict(x, logits, raw)\<close> every member is queried with the flag
  \<open>raw and logits\<close>. Three facts say so. The result is the same for any other list of
  members that answer the query with the flag \<open>raw \<and> logits\<close> as the ensemble's members
  do, whatever they answer to the other flag. With \<open>raw=True\<close> the result is the stack of
  the members' weighted answers to the flag \<open>logits\<close> (when no index is out of range).
  With \<open>raw=False\<close> the result is computed from the raw result for \<open>logits=False\<close>,
  that is from the members' probabilities, for both values of \<open>logits\<close>.
\<close>

theorem predict_queries_members_with_raw_and_logits:
  "(length cs' = length (self_classifiers self) \<longrightarrow>
      (\<forall>i < length cs'. call_predict (cs' ! i) x (raw \<and> logits)
                          = call_predict (self_classifiers self ! i) x (raw \<and> logits)) \<longrightarrow>
      predict (self\<lparr>self_classifiers := cs'\<rparr>) x logits raw = predict self x logits raw) \<and>
   (self_nb_classifiers self \<le> length (self_classifier_weights self) \<longrightarrow>
    self_nb_classifiers self \<le> length (self_classifiers self) \<longrightarrow>
      predict self x logits True
        = np_array (map (\<lambda>i. scale_nd (self_classifier_weights self ! i)
                                (call_predict (self_classifiers self ! i) x logits))
                      [0..<self_nb_classifiers self])) \<and>
   predict self x logits False =
     (case predict self x False True of
        Inl err \<Rightarrow> Inl err
      | Inr preds \<Rightarrow>
          Inr (if logits then np_log (np_clip (np_sum_axis0 preds) (1 / 10 ^ 7) (1 - 1 / 10 ^ 7))
               else np_sum_axis0 preds))"
proof (intro conjI impI)
  assume len: "length cs' = length (self_classifiers self)"
    and same: "\<forall>i < length cs'. call_predict (cs' ! i) x (raw \<and> logits)
                          = call_predict (self_classifiers self ! i) x (raw \<and> logits)"
  show "predict (self\<lparr>self_classifiers := cs'\<rparr>) x logits raw = predict self x logits raw"
  proof (cases "list_all (\<lambda>i. i < length (self_classifiers self)) [0..<self_nb_classifiers self]")
    case True
    from weighted_outputs_cong [OF len _ True,
        of "\<lambda>c. call_predict c x (raw \<and> logits)" "\<lambda>c. call_predict c x (raw \<and> logits)"] len same
    show ?thesis by (simp add: predict_def)
  next
    case False
    then have "\<not> list_all (\<lambda>i. i < length cs') [0..<self_nb_classifiers self]"
      using len by simp
    with False show ?thesis by (simp add: predict_def weighted_outputs_beyond)
  qed
next
  assume "self_nb_classifiers self \<le> length (self_classifier_weights self)"
    and "self_nb_classifiers self \<le> length (self_classifiers self)"
  then show "predict self x logits True
        = np_array (map (\<lambda>i. scale_nd (self_classifier_weights self ! i)
                                (call_predict (self_classifiers self ! i) x logits))
                      [0..<self_nb_classifiers self])"
    by (simp add: predict_unfold split: sum.splits)
next
  show "predict self x logits False =
     (case predict self x False True of
        Inl err \<Rightarrow> Inl err
      | Inr preds \<Rightarrow>
          Inr (if logits then np_log (np_clip (np_sum_axis0 preds) (1 / 10 ^ 7) (1 - 1 / 10 ^ 7))
               else np_sum_axis0 preds))"
    by (rule predict_aggregate_from_raw)
qed

text \<open>
  The example ensemble, and two other members with the same logits and other
  probabilities: with \<open>raw\<close> and \<open>logits\<close> set the results agree.
\<close>

theorem predict_queries_members_with_raw_and_logits_witness:
  "predict (example_ensemble [1 / 2, 1 / 2]
              \<lparr>self_classifiers := [example_member (1 / 3) (ln 3), example_member (2 / 3) (- ln 3)]\<rparr>)
      x0 True True
     = predict (example_ensemble [1 / 2, 1 / 2]) x0 True True \<and>
   predict (example_ensemble [1 / 2, 1 / 2]) x0 True True
     = Inr (Array [Array [Array [Scalar 0, Scalar (ln 3 / 2)]],
                   Array [Array [Scalar 0, Scalar (- (ln 3 / 2))]]]) \<and>
   predict (example_ensemble [1 / 2, 1 / 2]) x0 True False
     = Inr (Array [Array [Scalar (ln (1 / 2)), Scalar (ln (1 / 2))]]) \<and>
   predict (example_ensemble [1 / 2, 1 / 2]) x0 False True
     = Inr (Array [Array [Array [Scalar (1 / 8), Scalar (3 / 8)]],
                   Array [Array [Scalar (3 / 8), Scalar (1 / 8)]]])"
proof -
  let ?e = "example_ensemble [1 / 2, 1 / 2]"
  let ?cs = "[example_member (1 / 3) (ln 3), example_member (2 / 3) (- ln 3)]"
  have h1: "length ?cs = length (self_classifiers ?e)"
    by (simp add: example_ensemble_fields)
  have h2: "\<forall>i < length ?cs. call_predict (?cs ! i) x0 (True \<and> True)
                = call_predict (self_classifiers ?e ! i) x0 (True \<and> True)"
    by (simp add: example_ensemble_fields member_a_def member_b_def example_calls
        less_Suc_eq numeral_2_eq_2)
  have h3: "self_nb_classifiers ?e \<le> length (self_classifier_weights ?e)"
    and h4: "self_nb_classifiers ?e \<le> length (self_classifiers ?e)"
    by (simp_all add: example_ensemble_fields)
  note t = predict_queries_members_with_raw_and_logits [of ?cs ?e x0 True True]
  from t h1 h2 have "predict (?e\<lparr>self_classifiers := ?cs\<rparr>) x0 True True = predict ?e x0 True True"
    by blast
  moreover from t h3 h4 have "predict ?e x0 True True
        = np_array (map (\<lambda>i. scale_nd (self_classifier_weights ?e ! i)
                                (call_predict (self_classifiers ?e ! i) x0 True))
                      [0..<self_nb_classifiers ?e])"
    by blast
  moreover from t have "predict ?e x0 True False =
     (case predict ?e x0 False True of
        Inl err \<Rightarrow> Inl err
      | Inr preds \<Rightarrow>
          Inr (if True then np_log (np_clip (np_sum_axis0 preds) (1 / 10 ^ 7) (1 - 1 / 10 ^ 7))
               else np_sum_axis0 preds))"
    by blast
  ultimately show ?thesis
    by (simp add: example_predict example_predict_logits)
qed

subsection \<open>C3: the aggregated prediction in logit space\<close>

text \<open>
  C3: with \<open>raw=False\<close> and \<open>logits=True\<close>, \<open>predict\<close> returns
  \<open>log(clip(z, eps, 1 - eps))\<close>, entry by entry, where \<open>z\<close> is the weighted sum of the
  members' probability predictions (the result for \<open>logits=False\<close>) and \<open>eps\<close> is
  \<open>1e-7\<close>: the source's literal \<open>10e-8\<close> is \<open>10 / 10^8 = 1 / 10^7\<close>.
\<close>

theorem predict_logits_is_log_clip:
  assumes "init cv classifiers classifier_weights = Inr e"
    and "self_nb_classifiers e \<le> length (self_classifier_weights e)"
    and "list_all (predict_conforms x False) (self_classifiers e)"
  shows "let z = np_sum_axis0 (Array (map (\<lambda>i. scale_nd (self_classifier_weights e ! i)
                                              (call_predict (self_classifiers e ! i) x False))
                                     [0..<self_nb_classifiers e]))
         in predict e x False False = Inr z \<and>
            predict e x True False
              = Inr (map_nd (\<lambda>p. ln (min (max p (1 / 10 ^ 7)) (1 - 1 / 10 ^ 7))) z)"
proof -
  have n: "self_nb_classifiers e \<le> length (self_classifiers e)"
    using init_Inr(3) [OF assms(1)] by simp
  note st = constructed_stack [OF assms(1,2) constructed_predict_shapes [OF assms(1,3)]]
  show ?thesis
    using st
    by (simp add: predict_unfold [OF assms(2) n] Let_def np_log_def np_clip_def map_nd_comp)
qed

text \<open>
  The example members: with the default weights \<open>z = [[1/2, 1/2]]\<close> is not clipped; with
  the weights \<open>(2, 2)\<close>, \<open>z = [[2, 2]]\<close> is clipped to \<open>1 - 1e-7\<close>; with the weights
  \<open>(0, 0)\<close>, \<open>z = [[0, 0]]\<close> is clipped to \<open>1e-7\<close>.
\<close>

theorem predict_logits_is_log_clip_witness:
  "predict (example_ensemble [1 / 2, 1 / 2]) x0 True False
     = Inr (Array [Array [Scalar (ln (1 / 2)), Scalar (ln (1 / 2))]]) \<and>
   predict (example_ensemble [2, 2]) x0 False False
     = Inr (Array [Array [Scalar 2, Scalar 2]]) \<and>
   predict (example_ensemble [2, 2]) x0 True False
     = Inr (Array [Array [Scalar (ln (1 - 1 / 10 ^ 7)), Scalar (ln (1 - 1 / 10 ^ 7))]]) \<and>
   predict (example_ensemble [0, 0]) x0 True False
     = Inr (Array [Array [Scalar (ln (1 / 10 ^ 7)), Scalar (ln (1 / 10 ^ 7))]])"
proof -
  have i: "init (0, 1) (Some [Instance member_a, Instance member_b]) (Some ws)
             = Inr (example_ensemble ws)" for ws
    by (rule init_example)
  have l: "self_nb_classifiers (example_ensemble [u, v])
             \<le> length (self_classifier_weights (example_ensemble [u, v]))" for u v
    by (simp add: example_ensemble_fields)
  have c: "list_all (predict_conforms x0 False) (self_classifiers (example_ensemble ws))" for ws
    by (simp only: example_ensemble_fields example_members_conform)
  from predict_logits_is_log_clip [OF i l c, of "1 / 2" "1 / 2"]
    predict_logits_is_log_clip [OF i l c, of 2 2]
    predict_logits_is_log_clip [OF i l c, of 0 0]
  show ?thesis
    by (simp add: Let_def example_ensemble_fields member_a_def member_b_def example_calls upt_rec)
qed

subsection \<open>C4: the length of the weights\<close>

text \<open>
  C4 says that construction checks that there are as many weights as members. It does
  not: \<open>__init__\<close> stores \<open>classifier_weights\<close> as given and never looks at its length,
  and no later call checks it either.

  C4, as the code has it: when the members pass the checks of \<open>__init__\<close> (so that
  construction with the default weights succeeds), construction with any list of weights
  succeeds too, and the ensemble holds that list unchanged. A list shorter than the
  number of members is found out only by the queries: \<open>predict\<close>, \<open>class_gradient\<close> and
  \<open>loss_gradient\<close> then raise \<open>IndexError\<close>.
\<close>

theorem weights_length_is_not_checked:
  assumes "init cv classifiers None = Inr e"
  shows "init cv classifiers (Some ws)
           = Inr (e\<lparr>self_classifier_weights := ws\<rparr>) \<and>
         (length ws < self_nb_classifiers e \<longrightarrow>
            predict (e\<lparr>self_classifier_weights := ws\<rparr>) x logits raw = Inl IndexError \<and>
            class_gradient (e\<lparr>self_classifier_weights := ws\<rparr>) x label logits raw = Inl IndexError \<and>
            loss_gradient (e\<lparr>self_classifier_weights := ws\<rparr>) x y raw = Inl IndexError)"
proof -
  have "init cv classifiers (Some ws)
           = Inr (e\<lparr>self_classifier_weights := ws\<rparr>)"
    using assms by (auto simp: init_def split: option.splits if_splits sum.splits)
  then show ?thesis by (simp add: queries_short_weights)
qed

text \<open>
  One weight for the two example members: the ensemble is constructed, and every query
  raises \<open>IndexError\<close>.
\<close>

theorem weights_length_is_not_checked_witness:
  "init (0, 1) (Some [Instance member_a, Instance member_b]) None
     = Inr (example_ensemble [1 / 2, 1 / 2]) \<and>
   init (0, 1) (Some [Instance member_a, Instance member_b]) (Some [1])
     = Inr (example_ensemble [1]) \<and>
   predict (example_ensemble [1]) x0 False False = Inl IndexError \<and>
   class_gradient (example_ensemble [1]) x0 None False False = Inl IndexError \<and>
   loss_gradient (example_ensemble [1]) x0 y0 False = Inl IndexError"
proof -
  have h: "init (0, 1) (Some [Instance member_a, Instance member_b]) None
     = Inr (example_ensemble [1 / 2, 1 / 2])"
    by (rule init_example_default)
  have e: "example_ensemble [1 / 2, 1 / 2]\<lparr>self_classifier_weights := [1]\<rparr>
             = example_ensemble [1]"
    by (simp add: example_ensemble_def)
  from weights_length_is_not_checked [OF h, of "[1]" x0 False False None y0] h show ?thesis
    by (simp add: e example_ensemble_fields)
qed

text \<open>
  C4 fails: the two example members with one weight, and with three, are constructed.
\<close>

theorem weights_length_counterexample:
  "init (0, 1) (Some [Instance member_a, Instance member_b]) (Some [1])
     = Inr (example_ensemble [1]) \<and>
   length (self_classifier_weights (example_ensemble [1])) = 1 \<and>
   length (self_classifiers (example_ensemble [1])) = 2 \<and>
   init (0, 1) (Some [Instance member_a, Instance member_b]) (Some [1 / 3, 1 / 3, 1 / 3])
     = Inr (example_ensemble [1 / 3, 1 / 3, 1 / 3]) \<and>
   length (self_classifier_weights (example_ensemble [1 / 3, 1 / 3, 1 / 3])) = 3"
  by (simp add: init_example example_ensemble_fields)

subsection \<open>C5: the learning phase\<close>

text \<open>
  What the guard of \<open>set_learning_phase\<close> does on an object that has the attribute
  \<open>_learning\<close> (one that was given it from outside): nothing for a \<open>train\<close> that is not a
  \<open>bool\<close>, nothing when \<open>_learning\<close> is \<open>None\<close>, and otherwise the call of every member's
  \<open>set_learning_phase\<close> and the assignment of \<open>_learning_phase\<close>.
\<close>

lemma set_learning_phase_with_attribute:
  assumes "self_learning self = Some learning"
  shows "set_learning_phase self train =
     Inr (case train of
            PyBool b \<Rightarrow>
              if learning = PyNone then self
              else self\<lparr>self_classifiers :=
                          map (\<lambda>c. call_set_learning_phase c b) (self_classifiers self),
                        self_learning_phase := Some (PyBool b)\<rparr>
          | _ \<Rightarrow> self)"
  using assms by (cases train) (simp_all add: set_learning_phase_def)

text \<open>
  C5 says that \<open>set_learning_phase(train)\<close> raises nothing, does nothing when \<open>train\<close> is
  not a \<open>bool\<close>, and for a \<open>bool\<close> calls every member's \<open>set_learning_phase\<close> and stores
  \<open>train\<close>. The code does not get that far. Line 234 reads \<open>self._learning\<close>, and
  \<open>ensemble.py\<close> assigns no attribute of this name: \<open>__init__\<close> does not, and line 237
  assigns \<open>_learning_phase\<close>. So on every ensemble that \<open>__init__\<close> returned the call
  raises \<open>AttributeError\<close>, for every \<open>train\<close>, and no member is reached.
\<close>

theorem set_learning_phase_raises_attribute_error:
  assumes "init cv classifiers classifier_weights = Inr e"
  shows "set_learning_phase e train = Inl AttributeError"
  using init_Inr(9) [OF assms] by (simp add: set_learning_phase_def)

text \<open>
  The example ensemble: \<open>set_learning_phase(True)\<close> and
  \<open>set_learning_phase("not-a-bool")\<close> both raise.
\<close>

theorem set_learning_phase_raises_attribute_error_witness:
  "init (0, 1) (Some [Instance member_a, Instance member_b]) None
     = Inr (example_ensemble [1 / 2, 1 / 2]) \<and>
   set_learning_phase (example_ensemble [1 / 2, 1 / 2]) (PyBool True) = Inl AttributeError \<and>
   set_learning_phase (example_ensemble [1 / 2, 1 / 2]) (PyStr ''not-a-bool'') = Inl AttributeError"
proof -
  have h: "init (0, 1) (Some [Instance member_a, Instance member_b]) None
     = Inr (example_ensemble [1 / 2, 1 / 2])"
    by (rule init_example_default)
  from set_learning_phase_raises_attribute_error [OF h, of "PyBool True"]
    set_learning_phase_raises_attribute_error [OF h, of "PyStr ''not-a-bool''"] h
  show ?thesis by simp
qed

subsection \<open>C6: construction refuses members that do not fit\<close>

text \<open>
  C6: construction fails with \<open>ValueError\<close> when the list of members is \<open>None\<close> or
  empty, or some member's \<open>clip_values\<close> is not the given one, or some member's
  \<open>nb_classes\<close> or \<open>input_shape\<close> is not the first member's; and no ensemble is ever
  constructed from such a list. The members are \<open>Classifier\<close> instances (the list
  \<open>map Instance cs\<close>); an element that is not one makes \<open>__init__\<close> raise \<open>TypeError\<close>
  when the loop reaches it (\<open>init_foreign_first\<close>, for the first element). The second
  part holds for every list, whatever its elements: an ensemble that
  \<open>__init__\<close> returned holds at least one member, all instances, all with the given
  \<open>clip_values\<close> and with the first member's \<open>nb_classes\<close> and \<open>input_shape\<close>.
\<close>

theorem construction_rejects_invalid_members:
  "((members = None \<or> members = Some [] \<or>
      (\<exists>cs c. members = Some cs \<and> c \<in> set cs \<and>
          (clip_values c \<noteq> cv \<or> nb_classes c \<noteq> nb_classes (hd cs)
             \<or> input_shape c \<noteq> input_shape (hd cs))))
     \<longrightarrow> init cv (map_option (map Instance) members) classifier_weights
           = Inl ValueError) \<and>
   (init cv classifiers classifier_weights = Inr e
     \<longrightarrow> classifiers = Some (map Instance (self_classifiers e)) \<and>
         self_classifiers e \<noteq> [] \<and>
         list_all (\<lambda>c. clip_values c = cv \<and>
                      nb_classes c = nb_classes (hd (self_classifiers e)) \<and>
                      input_shape c = input_shape (hd (self_classifiers e)))
           (self_classifiers e))"
proof (intro conjI impI)
  assume bad: "members = None \<or> members = Some [] \<or>
      (\<exists>cs c. members = Some cs \<and> c \<in> set cs \<and>
          (clip_values c \<noteq> cv \<or> nb_classes c \<noteq> nb_classes (hd cs)
             \<or> input_shape c \<noteq> input_shape (hd cs)))"
  show "init cv (map_option (map Instance) members) classifier_weights
           = Inl ValueError"
  proof (cases members)
    case None then show ?thesis by (simp add: init_def)
  next
    case (Some cs)
    show ?thesis
    proof (cases "cs = []")
      case True with Some show ?thesis by (simp add: init_def)
    next
      case False
      with bad Some have "\<not> list_all (\<lambda>c. clip_values c = cv \<and> nb_classes c = nb_classes (hd cs)
                       \<and> input_shape c = input_shape (hd cs)) cs"
        by (auto simp: list_all_iff)
      with False Some show ?thesis by (simp add: init_members)
    qed
  qed
next
  assume ok: "init cv classifiers classifier_weights = Inr e"
  show "classifiers = Some (map Instance (self_classifiers e))" by (rule init_Inr(1) [OF ok])
  show "self_classifiers e \<noteq> []" by (rule init_Inr(2) [OF ok])
  show "list_all (\<lambda>c. clip_values c = cv \<and>
                      nb_classes c = nb_classes (hd (self_classifiers e)) \<and>
                      input_shape c = input_shape (hd (self_classifiers e)))
           (self_classifiers e)" by (rule init_Inr(4) [OF ok])
qed

text \<open>
  No list, the empty list, the example members with other \<open>clip_values\<close>, with three
  classes for the second, with another input shape for the second: \<open>ValueError\<close> each
  time. The example members as they are: an ensemble.
\<close>

theorem construction_rejects_invalid_members_witness:
  "init (0, 1) (map_option (map Instance) None) None
     = (Inl ValueError :: error + bool ensemble) \<and>
   init (0, 1) (map_option (map Instance) (Some [])) None
     = (Inl ValueError :: error + bool ensemble) \<and>
   init (0, 255) (map_option (map Instance) (Some [member_a, member_b])) None
     = Inl ValueError \<and>
   init (0, 1) (map_option (map Instance) (Some [member_a, member_b\<lparr>nb_classes := 3\<rparr>]))
       None = Inl ValueError \<and>
   init (0, 1) (map_option (map Instance) (Some [member_a, member_b\<lparr>input_shape := [2]\<rparr>]))
       None = Inl ValueError \<and>
   init (0, 1) (Some [Instance member_a, Instance member_b]) None
     = Inr (example_ensemble [1 / 2, 1 / 2]) \<and>
   list_all (\<lambda>c. clip_values c = (0, 1) \<and> nb_classes c = nb_classes member_a
                \<and> input_shape c = input_shape member_a) [member_a, member_b]"
proof -
  note t = construction_rejects_invalid_members
  have a: "init (0, 1) (map_option (map Instance) None) None
     = (Inl ValueError :: error + bool ensemble)"
    using t [of None "(0, 1)" None] by blast
  have b: "init (0, 1) (map_option (map Instance) (Some [])) None
     = (Inl ValueError :: error + bool ensemble)"
    using t [of "Some []" "(0, 1)" None] by blast
  have "\<exists>cs c. Some [member_a, member_b] = Some cs \<and> c \<in> set cs \<and>
          (clip_values c \<noteq> (0, 255) \<or> nb_classes c \<noteq> nb_classes (hd cs)
             \<or> input_shape c \<noteq> input_shape (hd cs))"
    by (intro exI [of _ "[member_a, member_b]"] exI [of _ member_a])
      (simp add: member_a_def example_fields)
  then have c: "init (0, 255) (map_option (map Instance) (Some [member_a, member_b])) None
     = Inl ValueError"
    using t [of "Some [member_a, member_b]" "(0, 255)" None] by blast
  have "\<exists>cs c. Some [member_a, member_b\<lparr>nb_classes := 3\<rparr>] = Some cs \<and> c \<in> set cs \<and>
          (clip_values c \<noteq> (0, 1) \<or> nb_classes c \<noteq> nb_classes (hd cs)
             \<or> input_shape c \<noteq> input_shape (hd cs))"
    by (intro exI [of _ "[member_a, member_b\<lparr>nb_classes := 3\<rparr>]"]
          exI [of _ "member_b\<lparr>nb_classes := 3\<rparr>"])
      (simp add: member_a_def example_fields)
  then have d: "init (0, 1) (map_option (map Instance) (Some [member_a, member_b\<lparr>nb_classes := 3\<rparr>]))
       None = Inl ValueError"
    using t [of "Some [member_a, member_b\<lparr>nb_classes := 3\<rparr>]" "(0, 1)" None]
    by blast
  have "\<exists>cs c. Some [member_a, member_b\<lparr>input_shape := [2]\<rparr>] = Some cs \<and> c \<in> set cs \<and>
          (clip_values c \<noteq> (0, 1) \<or> nb_classes c \<noteq> nb_classes (hd cs)
             \<or> input_shape c \<noteq> input_shape (hd cs))"
    by (intro exI [of _ "[member_a, member_b\<lparr>input_shape := [2]\<rparr>]"]
          exI [of _ "member_b\<lparr>input_shape := [2]\<rparr>"])
      (simp add: member_a_def example_fields)
  then have e: "init (0, 1) (map_option (map Instance) (Some [member_a, member_b\<lparr>input_shape := [2]\<rparr>]))
       None = Inl ValueError"
    using t [of "Some [member_a, member_b\<lparr>input_shape := [2]\<rparr>]" "(0, 1)" None]
    by blast
  have f: "init (0, 1) (Some [Instance member_a, Instance member_b]) None
     = Inr (example_ensemble [1 / 2, 1 / 2])"
    by (rule init_example_default)
  from t [of "None :: bool classifier list option" "(0, 1)" None
      "Some [Instance member_a, Instance member_b]"
      "example_ensemble [1 / 2, 1 / 2]"] f
  have g: "list_all (\<lambda>c. clip_values c = (0, 1) \<and> nb_classes c = nb_classes member_a
                \<and> input_shape c = input_shape member_a)
             (self_classifiers (example_ensemble [1 / 2, 1 / 2]))"
    by (simp add: example_ensemble_fields)
  then have g: "list_all (\<lambda>c. clip_values c = (0, 1) \<and> nb_classes c = nb_classes member_a
                \<and> input_shape c = input_shape member_a) [member_a, member_b]"
    by (simp only: example_ensemble_fields)
  from a b c d e f g show ?thesis by blast
qed

subsection \<open>C7: the default weights\<close>

text \<open>
  With exact arithmetic in place of float64: the default weights are \<open>1/N\<close>, and
  \<open>predict(x)\<close> is the members' probability predictions added up and divided by \<open>N\<close>.
\<close>

lemma default_weights_average_in_exact_arithmetic:
  assumes "init cv classifiers None = Inr e"
    and "list_all (predict_conforms x False) (self_classifiers e)"
  shows "self_classifier_weights e
           = replicate (self_nb_classifiers e) (1 / real (self_nb_classifiers e)) \<and>
         (\<forall>i < self_nb_classifiers e.
            self_classifier_weights e ! i = 1 / real (self_nb_classifiers e)) \<and>
         predict e x False False
           = Inr (scale_nd (1 / real (self_nb_classifiers e))
                   (np_sum_axis0 (Array (map (\<lambda>c. call_predict c x False) (self_classifiers e)))))"
proof -
  let ?n = "self_nb_classifiers e"
  have w: "self_classifier_weights e = replicate ?n (1 / real ?n)"
    using init_Inr(5) [OF assms(1)] by simp
  have n: "?n = length (self_classifiers e)"
    using init_Inr(3) [OF assms(1)] .
  have len: "?n \<le> length (self_classifier_weights e)" using w by simp
  have outs: "map (\<lambda>i. scale_nd (self_classifier_weights e ! i)
                    (call_predict (self_classifiers e ! i) x False)) [0..<?n]
      = map (scale_nd (1 / real ?n)) (map (\<lambda>c. call_predict c x False) (self_classifiers e))"
  proof -
    have "map (\<lambda>i. scale_nd (self_classifier_weights e ! i)
                    (call_predict (self_classifiers e ! i) x False)) [0..<?n]
       = map (\<lambda>i. scale_nd (1 / real ?n) (call_predict (self_classifiers e ! i) x False)) [0..<?n]"
      using w by (intro map_cong refl) (metis atLeastLessThan_iff nth_replicate set_upt)
    also have "\<dots> = map (\<lambda>c. scale_nd (1 / real ?n) (call_predict c x False)) (self_classifiers e)"
      unfolding n by (rule map_nth_upt)
    finally show ?thesis by simp
  qed
  let ?outs = "map (\<lambda>i. scale_nd (self_classifier_weights e ! i)
                    (call_predict (self_classifiers e ! i) x False)) [0..<?n]"
  have st: "np_array ?outs = Inr (Array ?outs)"
    by (rule constructed_stack [OF assms(1) len constructed_predict_shapes [OF assms(1,2)]])
  have "predict e x False False = Inr (np_sum_axis0 (Array ?outs))"
  proof -
    have "?n \<le> length (self_classifiers e)" using n by simp
    from predict_unfold [OF len this] st show ?thesis by simp
  qed
  also have "np_sum_axis0 (Array ?outs)
      = scale_nd (1 / real ?n)
          (np_sum_axis0 (Array (map (\<lambda>c. call_predict c x False) (self_classifiers e))))"
    by (simp only: outs np_sum_axis0_scale)
  finally have "predict e x False False
      = Inr (scale_nd (1 / real ?n)
              (np_sum_axis0 (Array (map (\<lambda>c. call_predict c x False) (self_classifiers e)))))" .
  with w show ?thesis by simp
qed

text \<open>
  C7 says that with \<open>classifier_weights=None\<close> and \<open>N\<close> members every weight is \<open>1/N\<close>
  and \<open>predict(x)\<close> is exactly the unweighted average of the members' probability
  predictions. The code multiplies every member's prediction by the weight and adds the
  products; in float64 each product and each sum is rounded, and the result is the
  average only up to that rounding.

  C7, as the code has it: constructed with \<open>classifier_weights=None\<close> and \<open>N\<close> members,
  the ensemble holds, for every member, the float64 quotient of \<open>1\<close> and \<open>N\<close> as its
  weight, and \<open>predict(x)\<close> (with \<open>logits=False\<close> and \<open>raw=False\<close>) returns the float64
  sum, in the members' order, of the products of that weight and the members'
  probability predictions.
\<close>

theorem default_weights_float64_sum:
  assumes "init_f64 cv classifiers None = Inr e"
    and "list_all (predict_conforms x False) (self_classifiers e)"
  shows "self_classifier_weights e
           = replicate (self_nb_classifiers e) (fl64 (1 / real (self_nb_classifiers e))) \<and>
         predict_f64 flog e x False False
           = Inr (np_sum_axis0_f64
                   (Array (map (\<lambda>c. scale_f64 (fl64 (1 / real (self_nb_classifiers e)))
                                      (call_predict c x False))
                             (self_classifiers e))))"
proof -
  let ?n = "self_nb_classifiers e"
  let ?w = "fl64 (1 / real ?n)"
  from assms(1) obtain e0 where e0: "init cv classifiers None = Inr e0"
    and e: "e = e0\<lparr>self_classifier_weights := replicate (self_nb_classifiers e0)
                     (fl64 (1 / real (self_nb_classifiers e0)))\<rparr>"
    by (auto simp: init_f64_init split: sum.splits)
  have w: "self_classifier_weights e = replicate ?n ?w" using e by simp
  have n: "?n = length (self_classifiers e)" and ne: "self_classifiers e \<noteq> []"
    using init_Inr(2,3) [OF e0] e by simp_all
  have sh: "list_all (\<lambda>c. shape (call_predict c x False) = Some [nb_inputs x, self_nb_classes e0])
              (self_classifiers e0)"
    using constructed_predict_shapes [OF e0, of x False] assms(2) e by simp
  let ?outs = "map (\<lambda>c. scale_f64 ?w (call_predict c x False)) (self_classifiers e)"
  have outs: "weighted_outputs_f64 (self_classifier_weights e) (self_classifiers e)
                (\<lambda>c. call_predict c x (False \<and> False)) [0..<?n] = Inr ?outs"
  proof -
    have "weighted_outputs_f64 (self_classifier_weights e) (self_classifiers e)
                (\<lambda>c. call_predict c x (False \<and> False)) [0..<?n]
          = Inr (map (\<lambda>i. scale_f64 (self_classifier_weights e ! i)
                            (call_predict (self_classifiers e ! i) x (False \<and> False))) [0..<?n])"
      by (rule weighted_outputs_f64_Inr) (simp add: list_all_iff w n)
    also have "map (\<lambda>i. scale_f64 (self_classifier_weights e ! i)
                            (call_predict (self_classifiers e ! i) x (False \<and> False))) [0..<?n]
             = map (\<lambda>i. scale_f64 ?w (call_predict (self_classifiers e ! i) x False)) [0..<?n]"
      using w by (intro map_cong refl) (metis atLeastLessThan_iff nth_replicate set_upt simp_thms(23))
    also have "\<dots> = ?outs"
      unfolding n by (rule map_nth_upt)
    finally show ?thesis .
  qed
  have "list_all (\<lambda>a. shape a = Some [nb_inputs x, self_nb_classes e0]) ?outs"
    using sh e by (simp add: list_all_iff shape_scale_f64)
  moreover have "?outs \<noteq> []" using ne by simp
  ultimately have st: "np_array ?outs = Inr (Array ?outs)"
    by (rule np_array_same_shape [rotated])
  have "predict_f64 flog e x False False = Inr (np_sum_axis0_f64 (Array ?outs))"
    using outs st by (simp add: predict_f64_def)
  with w show ?thesis by simp
qed

text \<open>
  The three example members: every weight is the float64 nearest to \<open>1/3\<close>, and the
  prediction is the sum of the three products.
\<close>

theorem default_weights_float64_sum_witness:
  "init_f64 (0, 1)
     (Some [Instance (example_member (3 / 4) 0), Instance (example_member (1 / 2) 0),
            Instance (example_member (1 / 4) 0)]) None
     = Inr (example_ensemble3 [6004799503160661 / 2 ^ 54, 6004799503160661 / 2 ^ 54,
                               6004799503160661 / 2 ^ 54]) \<and>
   fl64 (1 / 3) = 6004799503160661 / 2 ^ 54 \<and>
   predict_f64 ln
     (example_ensemble3 [6004799503160661 / 2 ^ 54, 6004799503160661 / 2 ^ 54,
                         6004799503160661 / 2 ^ 54]) x0 False False
     = Inr (np_sum_axis0_f64 (Array
         [scale_f64 (6004799503160661 / 2 ^ 54) (Array [Array [Scalar (3 / 4), Scalar (1 / 4)]]),
          scale_f64 (6004799503160661 / 2 ^ 54) (Array [Array [Scalar (1 / 2), Scalar (1 / 2)]]),
          scale_f64 (6004799503160661 / 2 ^ 54) (Array [Array [Scalar (1 / 4), Scalar (3 / 4)]])]))"
proof -
  let ?e = "example_ensemble3 [6004799503160661 / 2 ^ 54, 6004799503160661 / 2 ^ 54,
                               6004799503160661 / 2 ^ 54]"
  have h1: "init_f64 (0, 1)
     (Some [Instance (example_member (3 / 4) 0), Instance (example_member (1 / 2) 0),
            Instance (example_member (1 / 4) 0)]) None = Inr ?e"
    by (rule init_f64_three)
  have f: "self_nb_classifiers ?e = 3" "self_classifiers ?e = three_members"
    by (simp_all add: example_ensemble3_def)
  have h2: "list_all (predict_conforms x0 False) (self_classifiers ?e)"
    by (simp only: f three_members_conform)
  have c: "map (\<lambda>c. scale_f64 (6004799503160661 / 2 ^ 54) (call_predict c x0 False)) three_members
     = [scale_f64 (6004799503160661 / 2 ^ 54) (Array [Array [Scalar (3 / 4), Scalar (1 / 4)]]),
        scale_f64 (6004799503160661 / 2 ^ 54) (Array [Array [Scalar (1 / 2), Scalar (1 / 2)]]),
        scale_f64 (6004799503160661 / 2 ^ 54) (Array [Array [Scalar (1 / 4), Scalar (3 / 4)]])]"
    by (simp add: three_members_def example_calls)
  have "predict_f64 ln ?e x0 False False
     = Inr (np_sum_axis0_f64 (Array
         (map (\<lambda>c. scale_f64 (fl64 (1 / real (self_nb_classifiers ?e))) (call_predict c x0 False))
            (self_classifiers ?e))))"
    using default_weights_float64_sum [OF h1 h2, of ln] by (rule conjunct2)
  then have "predict_f64 ln ?e x0 False False
     = Inr (np_sum_axis0_f64 (Array
         (map (\<lambda>c. scale_f64 (6004799503160661 / 2 ^ 54) (call_predict c x0 False)) three_members)))"
    by (simp only: f of_nat_numeral fl64_third)
  with h1 show ?thesis by (simp only: c fl64_third simp_thms)
qed

text \<open>
  C7 fails for three members. The members predict \<open>[[3/4, 1/4]]\<close>, \<open>[[1/2, 1/2]]\<close> and
  \<open>[[1/4, 3/4]]\<close>, whose average is \<open>[[1/2, 1/2]]\<close>, in exact arithmetic and in
  float64. Every weight is the float64 nearest to \<open>1/3\<close>, and \<open>predict(x)\<close> returns
  \<open>[[(2^53 - 1) / 2^54, 1/2]]\<close>: its first entry, \<open>0.49999999999999994\<close>, is the float64
  just below \<open>1/2\<close>.
\<close>

theorem default_weights_average_counterexample:
  "init_f64 (0, 1)
     (Some [Instance (example_member (3 / 4) 0), Instance (example_member (1 / 2) 0),
            Instance (example_member (1 / 4) 0)]) None
     = Inr (example_ensemble3 [6004799503160661 / 2 ^ 54, 6004799503160661 / 2 ^ 54,
                               6004799503160661 / 2 ^ 54]) \<and>
   self_classifiers (example_ensemble3 [6004799503160661 / 2 ^ 54, 6004799503160661 / 2 ^ 54,
                                        6004799503160661 / 2 ^ 54])
     = [example_member (3 / 4) 0, example_member (1 / 2) 0, example_member (1 / 4) 0] \<and>
   call_predict (example_member (3 / 4) 0) x0 False = Array [Array [Scalar (3 / 4), Scalar (1 / 4)]] \<and>
   call_predict (example_member (1 / 2) 0) x0 False = Array [Array [Scalar (1 / 2), Scalar (1 / 2)]] \<and>
   call_predict (example_member (1 / 4) 0) x0 False = Array [Array [Scalar (1 / 4), Scalar (3 / 4)]] \<and>
   predict_f64 ln
     (example_ensemble3 [6004799503160661 / 2 ^ 54, 6004799503160661 / 2 ^ 54,
                         6004799503160661 / 2 ^ 54]) x0 False False
     = Inr (Array [Array [Scalar (9007199254740991 / 2 ^ 54), Scalar (1 / 2)]]) \<and>
   (3 / 4 + 1 / 2 + 1 / 4) / 3 = (1 / 2 :: real) \<and>
   fl64 (fl64 (fl64 (3 / 4 + 1 / 2) + 1 / 4) / 3) = 1 / 2 \<and>
   (9007199254740991 / 2 ^ 54 :: real) = 1 / 2 - 1 / 2 ^ 54 \<and>
   (9007199254740991 / 2 ^ 54 :: real) < 1 / 2"
proof -
  have a: "fl64 (fl64 (fl64 (3 / 4 + 1 / 2) + 1 / 4) / 3) = 1 / 2"
    by (simp only: fl64_mean)
  have b: "self_classifiers (example_ensemble3 [6004799503160661 / 2 ^ 54, 6004799503160661 / 2 ^ 54,
                                        6004799503160661 / 2 ^ 54])
     = [example_member (3 / 4) 0, example_member (1 / 2) 0, example_member (1 / 4) 0]"
    by (simp add: example_ensemble3_def three_members_def)
  have c: "call_predict (example_member (3 / 4) 0) x0 False = Array [Array [Scalar (3 / 4), Scalar (1 / 4)]]"
    "call_predict (example_member (1 / 2) 0) x0 False = Array [Array [Scalar (1 / 2), Scalar (1 / 2)]]"
    "call_predict (example_member (1 / 4) 0) x0 False = Array [Array [Scalar (1 / 4), Scalar (3 / 4)]]"
    by (simp_all add: example_calls)
  have d: "(3 / 4 + 1 / 2 + 1 / 4) / 3 = (1 / 2 :: real)"
    "(9007199254740991 / 2 ^ 54 :: real) = 1 / 2 - 1 / 2 ^ 54"
    "(9007199254740991 / 2 ^ 54 :: real) < 1 / 2"
    by simp_all
  from init_f64_three predict_f64_three [of ln] a b c d show ?thesis
    by blast
qed

subsection \<open>C8: the raw gradients add up to the aggregated gradients\<close>

text \<open>
  C8: for an ensemble that \<open>__init__\<close> returned, with a weight for every member, and
  members whose gradients have the shapes of the docstrings,
  \<open>class_gradient(x, label, logits, raw=True)\<close> returns a stacked array with one entry
  per member whose sum along the first axis is
  \<open>class_gradient(x, label, logits, raw=False)\<close>, and so for \<open>loss_gradient(x, y, raw)\<close>.
\<close>

theorem gradients_raw_sum_to_aggregate:
  assumes "init cv classifiers classifier_weights = Inr e"
    and "self_nb_classifiers e \<le> length (self_classifier_weights e)"
    and "list_all (class_gradient_conforms x label logits) (self_classifiers e)"
    and "list_all (loss_gradient_conforms x y) (self_classifiers e)"
  shows "(\<exists>grads. class_gradient e x label logits True = Inr (Array grads) \<and>
            length grads = self_nb_classifiers e \<and>
            class_gradient e x label logits False = Inr (np_sum_axis0 (Array grads))) \<and>
         (\<exists>grads. loss_gradient e x y True = Inr (Array grads) \<and>
            length grads = self_nb_classifiers e \<and>
            loss_gradient e x y False = Inr (np_sum_axis0 (Array grads)))"
proof -
  have n: "self_nb_classifiers e \<le> length (self_classifiers e)"
    using init_Inr(3) [OF assms(1)] by simp
  note cg = constructed_stack [OF assms(1,2) constructed_class_gradient_shapes [OF assms(1,3)]]
  note lg = constructed_stack [OF assms(1,2) constructed_loss_gradient_shapes [OF assms(4)]]
  show ?thesis
    using cg lg
    by (simp add: class_gradient_unfold [OF assms(2) n] loss_gradient_unfold [OF assms(2) n])
qed

text \<open>
  The example ensemble with the default weights.
\<close>

theorem gradients_raw_sum_to_aggregate_witness:
  "class_gradient (example_ensemble [1 / 2, 1 / 2]) x0 None False True
     = Inr (Array [Array [Array [Array [Scalar (1 / 8)], Array [Scalar (- (1 / 8))]]],
                   Array [Array [Array [Scalar (3 / 8)], Array [Scalar (- (3 / 8))]]]]) \<and>
   class_gradient (example_ensemble [1 / 2, 1 / 2]) x0 None False False
     = Inr (np_sum_axis0
         (Array [Array [Array [Array [Scalar (1 / 8)], Array [Scalar (- (1 / 8))]]],
                 Array [Array [Array [Scalar (3 / 8)], Array [Scalar (- (3 / 8))]]]])) \<and>
   class_gradient (example_ensemble [1 / 2, 1 / 2]) x0 None False False
     = Inr (Array [Array [Array [Scalar (1 / 2)], Array [Scalar (- (1 / 2))]]]) \<and>
   loss_gradient (example_ensemble [1 / 2, 1 / 2]) x0 y0 True
     = Inr (Array [Array [Array [Scalar (1 / 8)]], Array [Array [Scalar (3 / 8)]]]) \<and>
   loss_gradient (example_ensemble [1 / 2, 1 / 2]) x0 y0 False
     = Inr (np_sum_axis0 (Array [Array [Array [Scalar (1 / 8)]], Array [Array [Scalar (3 / 8)]]])) \<and>
   loss_gradient (example_ensemble [1 / 2, 1 / 2]) x0 y0 False
     = Inr (Array [Array [Scalar (1 / 2)]])"
proof -
  let ?e = "example_ensemble [1 / 2, 1 / 2]"
  have h1: "init (0, 1) (Some [Instance member_a, Instance member_b]) None = Inr ?e"
    by (rule init_example_default)
  have h2: "self_nb_classifiers ?e \<le> length (self_classifier_weights ?e)"
    by (simp add: example_ensemble_fields)
  have h3: "list_all (class_gradient_conforms x0 None False) (self_classifiers ?e)"
    by (simp only: example_ensemble_fields example_members_conform)
  have h4: "list_all (loss_gradient_conforms x0 y0) (self_classifiers ?e)"
    by (simp only: example_ensemble_fields example_members_conform)
  from gradients_raw_sum_to_aggregate [OF h1 h2 h3 h4] show ?thesis
    by (simp add: example_gradients)
qed

subsection \<open>C9: the operations an ensemble does not support\<close>

text \<open>
  C9: \<open>fit\<close>, \<open>fit_generator\<close>, \<open>layer_names\<close>, \<open>get_activations\<close> and \<open>save\<close> raise
  \<open>NotImplementedError\<close> for every ensemble and all arguments.
\<close>

theorem unsupported_operations:
  "fit self x y batch_size nb_epochs = Inl NotImplementedError \<and>
   fit_generator self generator nb_epochs' = Inl NotImplementedError \<and>
   layer_names self = Inl NotImplementedError \<and>
   get_activations self x' layer = Inl NotImplementedError \<and>
   save self filename path = Inl NotImplementedError"
  by (simp add: fit_def fit_generator_def layer_names_def get_activations_def save_def)

subsection \<open>C10: weights that are given are used as they are\<close>

text \<open>
  C10: when \<open>classifier_weights\<close> is given, the ensemble holds exactly that list, and
  in \<open>predict\<close>, \<open>class_gradient\<close> and \<open>loss_gradient\<close> the output of member \<open>i\<close> is
  multiplied by \<open>classifier_weights[i]\<close> and by nothing else: the stacked array of the
  products is the raw result, and its sum the aggregated one. Nothing is normalised.
\<close>

theorem supplied_weights_used_as_given:
  assumes "init cv classifiers (Some ws) = Inr e"
  shows "self_classifier_weights e = ws \<and>
    (self_nb_classifiers e \<le> length ws \<longrightarrow>
       predict e x logits raw =
         (case np_array (map (\<lambda>i. scale_nd (ws ! i)
                                   (call_predict (self_classifiers e ! i) x (raw \<and> logits)))
                          [0..<self_nb_classifiers e]) of
            Inl err \<Rightarrow> Inl err
          | Inr preds \<Rightarrow>
              Inr (if raw then preds
                   else if logits
                     then np_log (np_clip (np_sum_axis0 preds) (1 / 10 ^ 7) (1 - 1 / 10 ^ 7))
                     else np_sum_axis0 preds)) \<and>
       class_gradient e x label logits raw =
         (case np_array (map (\<lambda>i. scale_nd (ws ! i)
                                   (call_class_gradient (self_classifiers e ! i) x label logits))
                          [0..<self_nb_classifiers e]) of
            Inl err \<Rightarrow> Inl err
          | Inr grads \<Rightarrow> Inr (if raw then grads else np_sum_axis0 grads)) \<and>
       loss_gradient e x y raw =
         (case np_array (map (\<lambda>i. scale_nd (ws ! i)
                                   (call_loss_gradient (self_classifiers e ! i) x y))
                          [0..<self_nb_classifiers e]) of
            Inl err \<Rightarrow> Inl err
          | Inr grads \<Rightarrow> Inr (if raw then grads else np_sum_axis0 grads)))"
proof -
  have w: "self_classifier_weights e = ws" using init_Inr(5) [OF assms] by simp
  have n: "self_nb_classifiers e \<le> length (self_classifiers e)"
    using init_Inr(3) [OF assms] by simp
  show ?thesis
  proof (intro conjI impI)
    assume "self_nb_classifiers e \<le> length ws"
    then have len: "self_nb_classifiers e \<le> length (self_classifier_weights e)" using w by simp
    show "predict e x logits raw =
         (case np_array (map (\<lambda>i. scale_nd (ws ! i)
                                   (call_predict (self_classifiers e ! i) x (raw \<and> logits)))
                          [0..<self_nb_classifiers e]) of
            Inl err \<Rightarrow> Inl err
          | Inr preds \<Rightarrow>
              Inr (if raw then preds
                   else if logits
                     then np_log (np_clip (np_sum_axis0 preds) (1 / 10 ^ 7) (1 - 1 / 10 ^ 7))
                     else np_sum_axis0 preds))"
      using predict_unfold [OF len n, of x logits raw] by (simp only: w)
    show "class_gradient e x label logits raw =
         (case np_array (map (\<lambda>i. scale_nd (ws ! i)
                                   (call_class_gradient (self_classifiers e ! i) x label logits))
                          [0..<self_nb_classifiers e]) of
            Inl err \<Rightarrow> Inl err
          | Inr grads \<Rightarrow> Inr (if raw then grads else np_sum_axis0 grads))"
      using class_gradient_unfold [OF len n, of x label logits raw] by (simp only: w)
    show "loss_gradient e x y raw =
         (case np_array (map (\<lambda>i. scale_nd (ws ! i)
                                   (call_loss_gradient (self_classifiers e ! i) x y))
                          [0..<self_nb_classifiers e]) of
            Inl err \<Rightarrow> Inl err
          | Inr grads \<Rightarrow> Inr (if raw then grads else np_sum_axis0 grads))"
      using loss_gradient_unfold [OF len n, of x y raw] by (simp only: w)
  qed (rule w)
qed

text \<open>
  The example members with the weights \<open>(2, 3)\<close>, which add up to 5.
\<close>

theorem supplied_weights_used_as_given_witness:
  "init (0, 1) (Some [Instance member_a, Instance member_b]) (Some [2, 3])
     = Inr (example_ensemble [2, 3]) \<and>
   self_classifier_weights (example_ensemble [2, 3]) = [2, 3] \<and>
   predict (example_ensemble [2, 3]) x0 False True
     = Inr (Array [Array [Array [Scalar (2 * (1 / 4)), Scalar (2 * (3 / 4))]],
                   Array [Array [Scalar (3 * (3 / 4)), Scalar (3 * (1 / 4))]]]) \<and>
   predict (example_ensemble [2, 3]) x0 False False
     = Inr (Array [Array [Scalar (11 / 4), Scalar (9 / 4)]]) \<and>
   class_gradient (example_ensemble [2, 3]) x0 None False True
     = Inr (Array [Array [Array [Array [Scalar (2 * (1 / 4))], Array [Scalar (- (2 * (1 / 4)))]]],
                   Array [Array [Array [Scalar (3 * (3 / 4))], Array [Scalar (- (3 * (3 / 4)))]]]]) \<and>
   loss_gradient (example_ensemble [2, 3]) x0 y0 True
     = Inr (Array [Array [Array [Scalar (2 * (1 / 4))]], Array [Array [Scalar (3 * (3 / 4))]]])"
proof -
  let ?e = "example_ensemble [2, 3]"
  have h: "init (0, 1) (Some [Instance member_a, Instance member_b]) (Some [2, 3])
     = Inr ?e"
    by (rule init_example)
  from supplied_weights_used_as_given [OF h] h show ?thesis
    by (simp add: example_ensemble_fields example_predict example_gradients)
qed

end
